theory Spec2Isabelle
  imports Complex_Main
begin

unbundle bit_operations_syntax

section \<open>Numbers and arrays\<close>

text \<open>
  A Python float is idealised as a real number or the value \<open>float('inf')\<close>; rounding
  and NaN are not modelled. A one-dimensional numpy array of floats is a list of reals.
\<close>

datatype pyfloat = Finite real | PosInf

fun py_lt :: "pyfloat \<Rightarrow> pyfloat \<Rightarrow> bool" where
  "py_lt (Finite a) (Finite b) = (a < b)"
| "py_lt (Finite a) PosInf = True"
| "py_lt PosInf b = False"

text \<open>Python's \<open>min(a, b)\<close> keeps \<open>a\<close> unless \<open>b < a\<close>.\<close>

definition py_min :: "pyfloat \<Rightarrow> pyfloat \<Rightarrow> pyfloat" where
  "py_min a b = (if py_lt b a then b else a)"

text \<open>
  An elementwise numpy operation on two one-dimensional arrays: equal lengths combine
  position by position, a length-one array is broadcast, any other pair of shapes raises
  \<open>ValueError\<close> (the value \<open>None\<close>).
\<close>

definition np_binop :: "(real \<Rightarrow> real \<Rightarrow> real) \<Rightarrow> real list \<Rightarrow> real list \<Rightarrow> real list option" where
  "np_binop f a b =
     (if length a = length b then Some (map2 f a b)
      else if length a = 1 then Some (map (f (hd a)) b)
      else if length b = 1 then Some (map (\<lambda>u. f u (hd b)) a)
      else None)"

text \<open>\<open>np.mean(vs, axis=0)\<close> on a non-empty list of arrays; rows of unequal length raise.\<close>

definition np_mean_axis0 :: "real list list \<Rightarrow> real list option" where
  "np_mean_axis0 vs =
     (case vs of
        [] \<Rightarrow> None
      | v # rest \<Rightarrow>
          if list_all (\<lambda>u. length u = length v) vs
          then Some (map (\<lambda>i. sum_list (map (\<lambda>u. u ! i) vs) / real (length vs)) [0..<length v])
          else None)"

text \<open>
  \<open>np.histogram(values, bins=n, range=(0, 256))\<close> on integer values: bin \<open>b\<close> counts the
  values \<open>v < 256\<close> with \<open>b * 256 / n \<le> v < (b + 1) * 256 / n\<close>.
\<close>

definition np_histogram :: "nat list \<Rightarrow> nat \<Rightarrow> nat list" where
  "np_histogram vals bins =
     map (\<lambda>b. length (filter (\<lambda>v. v < 256 \<and> (v * bins) div 256 = b) vals)) [0..<bins]"

text \<open>Python's \<open>int(v)\<close> on a float truncates toward zero.\<close>

definition py_int :: "real \<Rightarrow> int" where
  "py_int v = (if 0 \<le> v then \<lfloor>v\<rfloor> else \<lceil>v\<rceil>)"

section \<open>Texture descriptor: \<open>extract_lbp_features\<close>\<close>

text \<open>A two-dimensional \<open>uint8\<close> array: its shape and its rows.\<close>

record image =
  height :: nat
  width :: nat
  pixels :: "nat list list"

definition wf_image :: "image \<Rightarrow> bool" where
  "wf_image img \<longleftrightarrow>
     length (pixels img) = height img \<and>
     list_all (\<lambda>row. length row = width img \<and> list_all (\<lambda>v. v < 256) row) (pixels img)"

definition px :: "image \<Rightarrow> nat \<Rightarrow> nat \<Rightarrow> nat" where
  "px img i j = pixels img ! i ! j"

text \<open>
  The sampling position \<open>x = int(j + radius * np.cos(angle))\<close>,
  \<open>y = int(i - radius * np.sin(angle))\<close> with \<open>angle = 2 * np.pi * p / points\<close>, over the
  reals.
\<close>

definition sample_x :: "nat \<Rightarrow> nat \<Rightarrow> nat \<Rightarrow> nat \<Rightarrow> int" where
  "sample_x radius points j p =
     py_int (real j + real radius * cos (2 * pi * real p / real points))"

definition sample_y :: "nat \<Rightarrow> nat \<Rightarrow> nat \<Rightarrow> nat \<Rightarrow> int" where
  "sample_y radius points i p =
     py_int (real i - real radius * sin (2 * pi * real p / real points))"

text \<open>
  One pass of the loop \<open>for p in range(points)\<close>; \<open>power\<close> always equals \<open>p\<close>.
\<close>

definition lbp_step :: "image \<Rightarrow> nat \<Rightarrow> nat \<Rightarrow> nat \<Rightarrow> nat \<Rightarrow> nat \<Rightarrow> nat \<Rightarrow> nat" where
  "lbp_step img radius points i j p binary_code =
     (let x = sample_x radius points j p;
          y = sample_y radius points i p
      in if x \<ge> 0 \<and> x < int (width img) \<and> y \<ge> 0 \<and> y < int (height img)
         then binary_code OR push_bit p (of_bool (px img (nat y) (nat x) \<ge> px img i j))
         else binary_code)"

definition lbp_code :: "image \<Rightarrow> nat \<Rightarrow> nat \<Rightarrow> nat \<Rightarrow> nat \<Rightarrow> nat" where
  "lbp_code img radius points i j = fold (lbp_step img radius points i j) [0..<points] 0"

text \<open>
  The \<open>uint8\<close> array \<open>lbp_image\<close>, flattened row by row; storing a code keeps it modulo 256.
\<close>

definition lbp_image :: "image \<Rightarrow> nat \<Rightarrow> nat \<Rightarrow> nat list" where
  "lbp_image img radius points =
     concat (map (\<lambda>i. map (\<lambda>j. lbp_code img radius points i j mod 256)
                          [radius..<width img - radius])
                 [radius..<height img - radius])"

text \<open>
  \<open>np.zeros\<close> raises on a negative dimension, and the \<open>except\<close> branch returns
  \<open>np.zeros(256)\<close>.
\<close>

definition extract_lbp_features :: "image \<Rightarrow> nat \<Rightarrow> nat \<Rightarrow> real list" where
  "extract_lbp_features img radius points =
     (if height img < 2 * radius \<or> width img < 2 * radius then replicate 256 0
      else
        let hist = map real (np_histogram (lbp_image img radius points) 256)
        in if sum_list hist > 0 then map (\<lambda>h. h / sum_list hist) hist else hist)"

section \<open>Feature extractor: \<open>extract_face_encoding\<close>\<close>

text \<open>
  The calls into OpenCV and \<open>face_recognition\<close> are parameters of the model. A call that
  the source wraps in \<open>try\<close> either raises or returns.
\<close>

datatype 'a attempt = Raises | Returns 'a

record 'img cv =
  detect_faces_dnn :: "'img \<Rightarrow> (int \<times> int \<times> int \<times> int) list"
  detect_faces_haar :: "'img \<Rightarrow> (int \<times> int \<times> int \<times> int) list"
  crop :: "'img \<Rightarrow> int \<Rightarrow> int \<Rightarrow> int \<Rightarrow> int \<Rightarrow> 'img"
  img_size :: "'img \<Rightarrow> nat"
  face_encodings :: "'img \<Rightarrow> real list list attempt"
  resize :: "'img \<Rightarrow> 'img attempt"
  calcHist :: "'img \<Rightarrow> nat \<Rightarrow> real list option attempt"
  normalize :: "real list \<Rightarrow> real list attempt"
  cvtColor_gray :: "'img \<Rightarrow> image attempt"
  Canny :: "image \<Rightarrow> image attempt"

definition detect_faces :: "'img cv \<Rightarrow> 'img \<Rightarrow> (int \<times> int \<times> int \<times> int) list" where
  "detect_faces E frame =
     (let faces = detect_faces_dnn E frame
      in if length faces = 0 then detect_faces_haar E frame else faces)"

text \<open>The loop \<open>for channel in range(3)\<close>; \<open>None\<close> is an exception leaving the loop.\<close>

fun color_features :: "'img cv \<Rightarrow> 'img \<Rightarrow> nat list \<Rightarrow> real list option" where
  "color_features E face_resized [] = Some []"
| "color_features E face_resized (channel # channels) =
     (case calcHist E face_resized channel of
        Raises \<Rightarrow> None
      | Returns None \<Rightarrow> color_features E face_resized channels
      | Returns (Some hist) \<Rightarrow>
          (case normalize E hist of
             Raises \<Rightarrow> None
           | Returns h \<Rightarrow> map_option (\<lambda>more. h @ more) (color_features E face_resized channels)))"

definition edge_features :: "image \<Rightarrow> real list" where
  "edge_features edges =
     (let edge_hist = map real (np_histogram (concat (pixels edges)) 20)
      in if sum_list edge_hist > 0 then map (\<lambda>h. h / sum_list edge_hist) edge_hist
         else edge_hist)"

text \<open>The second \<open>try\<close> block; \<open>None\<close> is its \<open>except\<close> branch.\<close>

definition fallback_features :: "'img cv \<Rightarrow> 'img \<Rightarrow> real list option" where
  "fallback_features E face_image =
     (case resize E face_image of
        Raises \<Rightarrow> None
      | Returns face_resized \<Rightarrow>
          (case color_features E face_resized [0, 1, 2] of
             None \<Rightarrow> None
           | Some features \<Rightarrow>
               (case cvtColor_gray E face_resized of
                  Raises \<Rightarrow> None
                | Returns gray \<Rightarrow>
                    (case Canny E gray of
                       Raises \<Rightarrow> None
                     | Returns edges \<Rightarrow>
                         Some (features @ extract_lbp_features gray 2 16
                               @ edge_features edges)))))"

definition extract_face_encoding :: "'img cv \<Rightarrow> 'img option \<Rightarrow> real list option \<times> string" where
  "extract_face_encoding E face_image =
     (case face_image of
        None \<Rightarrow> (None, ''invalid'')
      | Some img \<Rightarrow>
          if img_size E img = 0 then (None, ''invalid'')
          else
            (case face_encodings E img of
               Returns (e # es) \<Rightarrow> (Some e, ''deep_learning'')
             | _ \<Rightarrow>
                 (case fallback_features E img of
                    Some features \<Rightarrow> (Some features, ''feature_based'')
                  | None \<Rightarrow> (None, ''error''))))"

section \<open>Similarity engine: \<open>compare_faces\<close>\<close>

definition feature_weights :: "real list \<Rightarrow> real list" where
  "feature_weights encoding1 =
     (let weights = replicate (length encoding1) 1
      in if length weights > 96
         then take 96 weights @ replicate (length weights - 96) 2
         else weights)"

definition compare_faces :: "real list option \<Rightarrow> real list option \<Rightarrow> string \<Rightarrow> pyfloat" where
  "compare_faces encoding1 encoding2 meth =
     (case (encoding1, encoding2) of
        (Some e1, Some e2) \<Rightarrow>
          (if meth = ''deep_learning''
           then (case np_binop (-) e1 e2 of
                   None \<Rightarrow> PosInf
                 | Some d \<Rightarrow> Finite (sqrt (sum_list (map (\<lambda>v. \<bar>v\<bar>\<^sup>2) d))))
           else (case np_binop (-) e1 e2 of
                   None \<Rightarrow> PosInf
                 | Some d \<Rightarrow>
                     (case np_binop (*) (feature_weights e1) d of
                        None \<Rightarrow> PosInf
                      | Some weighted_diff \<Rightarrow>
                          Finite (sqrt (sum_list (map (\<lambda>v. v\<^sup>2) weighted_diff))))))
      | _ \<Rightarrow> PosInf)"

section \<open>Identity store and audit log\<close>

datatype detail = IntDetail int | FloatDetail pyfloat

record log_entry =
  timestamp :: string
  username :: string
  action :: string
  success :: bool
  details :: "(string \<times> detail) list"

text \<open>An entry of \<open>known_faces\<close>; the key \<open>method\<close> is the field \<open>method_tag\<close>.\<close>

record face_data =
  encoding :: "real list"
  method_tag :: string
  samples :: nat
  registered :: string

text \<open>
  The fields of \<open>FaceVerificationSystem\<close> that the workflows use, and the two files it
  writes (\<open>None\<close>: not written yet).
\<close>

record system =
  threshold :: pyfloat
  known_faces :: "string \<rightharpoonup> face_data"
  verification_logs :: "log_entry list"
  camera_available :: bool
  logs_file :: "log_entry list option"
  faces_file :: "(string \<rightharpoonup> face_data) option"

text \<open>\<open>json.dump(self.verification_logs[-1000:], f)\<close>; a failed write is swallowed.\<close>

definition save_logs :: "bool \<Rightarrow> system \<Rightarrow> system" where
  "save_logs write_ok S =
     (if write_ok
      then S\<lparr>logs_file :=
               Some (drop (length (verification_logs S) - 1000) (verification_logs S))\<rparr>
      else S)"

definition save_data :: "bool \<Rightarrow> system \<Rightarrow> system" where
  "save_data write_ok S = (if write_ok then S\<lparr>faces_file := Some (known_faces S)\<rparr> else S)"

definition log_verification ::
  "string \<Rightarrow> bool \<Rightarrow> string \<Rightarrow> string \<Rightarrow> bool \<Rightarrow> (string \<times> detail) list option \<Rightarrow> system \<Rightarrow> system"
where
  "log_verification now write_ok user act ok dets S =
     (let log_entry = \<lparr>timestamp = now, username = user, action = act, success = ok,
                        details = (case dets of None \<Rightarrow> [] | Some d \<Rightarrow> d)\<rparr>;
          S' = S\<lparr>verification_logs := verification_logs S @ [log_entry]\<rparr>
      in if length (verification_logs S') mod 10 = 0 then save_logs write_ok S' else S')"


section \<open>Enrollment: \<open>register_user\<close>\<close>

text \<open>What one run reads from the clock and the disk.\<close>

record run_io =
  now_registered :: string
  now_logged :: string
  faces_write_ok :: bool
  logs_write_ok :: bool

text \<open>
  One pass of the \<open>while\<close> loop reads the elapsed seconds and, unless timed out, a frame.
\<close>

record 'img poll =
  elapsed_seconds :: nat
  captured :: "'img option"

text \<open>
  The body of the loop from \<open>detect_faces\<close> on: the sample it appends, if any.
\<close>

definition poll_sample :: "'img cv \<Rightarrow> 'img \<Rightarrow> (real list \<times> string) option" where
  "poll_sample E frame =
     (let faces = detect_faces E frame
      in if length faces > 0
         then (case hd faces of
                 (x, y, w, h) \<Rightarrow>
                   let face = crop E frame x y w h
                   in if img_size E face > 0
                      then if w > 100 \<and> h > 100
                           then (case extract_face_encoding E (Some face) of
                                   (Some e, m) \<Rightarrow> Some (e, m)
                                 | (None, m) \<Rightarrow> None)
                           else None
                      else None)
         else None)"

datatype collected = TimedOut | Collected "(real list \<times> string) list"

text \<open>
  The \<open>while\<close> loop over the polls it can make; \<open>None\<close> when it is still collecting after
  the last of them.
\<close>

fun collect_samples ::
  "'img cv \<Rightarrow> nat \<Rightarrow> 'img poll list \<Rightarrow> (real list \<times> string) list \<Rightarrow> nat \<Rightarrow> collected option"
where
  "collect_samples E num_samples polls smp sample_count =
     (if \<not> sample_count < num_samples then Some (Collected smp)
      else (case polls of
              [] \<Rightarrow> None
            | p # rest \<Rightarrow>
                if elapsed_seconds p > 30 then Some TimedOut
                else (case captured p of
                        None \<Rightarrow> collect_samples E num_samples rest smp sample_count
                      | Some frame \<Rightarrow>
                          (case poll_sample E frame of
                             Some s \<Rightarrow>
                               collect_samples E num_samples rest (smp @ [s]) (sample_count + 1)
                           | None \<Rightarrow> collect_samples E num_samples rest smp sample_count))))"

declare collect_samples.simps [simp del]

datatype outcome = Returned bool | Raised

definition store_user ::
  "run_io \<Rightarrow> system \<Rightarrow> string \<Rightarrow> real list \<Rightarrow> string \<Rightarrow> nat \<Rightarrow> outcome \<times> system" where
  "store_user io S user avg_encoding meth n =
     (let S1 = S\<lparr>known_faces := (known_faces S)(user \<mapsto>
                   \<lparr>encoding = avg_encoding, method_tag = meth, samples = n,
                    registered = now_registered io\<rparr>)\<rparr>;
          S2 = save_data (faces_write_ok io) S1;
          S3 = log_verification (now_logged io) (logs_write_ok io) user ''registration'' True
                 (Some [(''samples'', IntDetail (int n))]) S2
      in (Returned True, S3))"

text \<open>The code after the loop, from \<open>if samples:\<close> on.\<close>

definition commit_samples ::
  "run_io \<Rightarrow> system \<Rightarrow> string \<Rightarrow> (real list \<times> string) list \<Rightarrow> outcome \<times> system" where
  "commit_samples io S user smp =
     (if smp \<noteq> [] then
        let deep_learning_samples = map fst (filter (\<lambda>(e, m). m = ''deep_learning'') smp);
            feature_samples = map fst (filter (\<lambda>(e, m). m = ''feature_based'') smp)
        in if deep_learning_samples \<noteq> [] then
             (case np_mean_axis0 deep_learning_samples of
                None \<Rightarrow> (Raised, S)
              | Some avg_encoding \<Rightarrow>
                  store_user io S user avg_encoding ''deep_learning'' (length smp))
           else if feature_samples \<noteq> [] then
             (case np_mean_axis0 feature_samples of
                None \<Rightarrow> (Raised, S)
              | Some avg_encoding \<Rightarrow>
                  store_user io S user avg_encoding ''feature_based'' (length smp))
           else (Returned False, S)
      else (Returned False, S))"

definition register_user ::
  "'img cv \<Rightarrow> run_io \<Rightarrow> system \<Rightarrow> string \<Rightarrow> nat \<Rightarrow> 'img poll list \<Rightarrow> (outcome \<times> system) option"
where
  "register_user E io S user num_samples polls =
     (if \<not> camera_available S then Some (Returned False, S)
      else (case collect_samples E num_samples polls [] 0 of
              None \<Rightarrow> None
            | Some TimedOut \<Rightarrow> Some (Returned False, S)
            | Some (Collected smp) \<Rightarrow> Some (commit_samples io S user smp)))"

section \<open>Verification: \<open>verify_user\<close>\<close>

text \<open>The distance computed for one extracted encoding.\<close>

definition candidate_distance :: "real list \<Rightarrow> string \<Rightarrow> real list \<Rightarrow> string \<Rightarrow> pyfloat" where
  "candidate_distance registered_encoding meth e detected_method =
     (if meth = detected_method
      then compare_faces (Some e) (Some registered_encoding) meth
      else compare_faces (Some e) (Some registered_encoding) ''feature_based'')"

text \<open>The loop \<open>for (x, y, w, h) in faces\<close>, threading \<open>best_distance\<close>.\<close>

fun scan_faces ::
  "'img cv \<Rightarrow> real list \<Rightarrow> string \<Rightarrow> 'img \<Rightarrow> (int \<times> int \<times> int \<times> int) list \<Rightarrow> pyfloat \<Rightarrow> pyfloat"
where
  "scan_faces E registered_encoding meth frame [] best_distance = best_distance"
| "scan_faces E registered_encoding meth frame ((x, y, w, h) # faces) best_distance =
     (let face = crop E frame x y w h
      in if img_size E face > 0 \<and> w > 100 \<and> h > 100
         then (case extract_face_encoding E (Some face) of
                 (Some e, detected_method) \<Rightarrow>
                   scan_faces E registered_encoding meth frame faces
                     (py_min best_distance
                        (candidate_distance registered_encoding meth e detected_method))
               | (None, detected_method) \<Rightarrow>
                   scan_faces E registered_encoding meth frame faces best_distance)
         else scan_faces E registered_encoding meth frame faces best_distance)"

definition attempt_distance :: "'img cv \<Rightarrow> real list \<Rightarrow> string \<Rightarrow> 'img \<Rightarrow> pyfloat" where
  "attempt_distance E registered_encoding meth frame =
     scan_faces E registered_encoding meth frame (detect_faces E frame) PosInf"

text \<open>
  The loop \<open>for attempt in range(max_attempts)\<close>: \<open>camera k\<close> is what \<open>capture_frame\<close>
  returns in attempt \<open>k\<close>. The result is the accepted distance, or \<open>None\<close> when every
  attempt has been used.
\<close>

fun run_attempts ::
  "'img cv \<Rightarrow> pyfloat \<Rightarrow> real list \<Rightarrow> string \<Rightarrow> (nat \<Rightarrow> 'img option) \<Rightarrow> nat \<Rightarrow> nat \<Rightarrow> pyfloat option"
where
  "run_attempts E thr registered_encoding meth camera 0 attempt = None"
| "run_attempts E thr registered_encoding meth camera (Suc remaining) attempt =
     (case camera attempt of
        None \<Rightarrow> run_attempts E thr registered_encoding meth camera remaining (attempt + 1)
      | Some frame \<Rightarrow>
          let best_distance = attempt_distance E registered_encoding meth frame
          in if py_lt best_distance thr then Some best_distance
             else run_attempts E thr registered_encoding meth camera remaining (attempt + 1))"

definition verify_user ::
  "'img cv \<Rightarrow> run_io \<Rightarrow> system \<Rightarrow> string \<Rightarrow> nat \<Rightarrow> (nat \<Rightarrow> 'img option) \<Rightarrow> bool \<times> system" where
  "verify_user E io S user max_attempts camera =
     (case known_faces S user of
        None \<Rightarrow> (False, S)
      | Some user_data \<Rightarrow>
          if \<not> camera_available S then (False, S)
          else (case run_attempts E (threshold S) (encoding user_data) (method_tag user_data)
                       camera max_attempts 0 of
                  Some best_distance \<Rightarrow>
                    (True, log_verification (now_logged io) (logs_write_ok io) user
                             ''verification'' True
                             (Some [(''distance'', FloatDetail best_distance)]) S)
                | None \<Rightarrow>
                    (False, log_verification (now_logged io) (logs_write_ok io) user
                              ''verification'' False
                              (Some [(''attempts'', IntDetail (int max_attempts))]) S)))"

section \<open>Notions used to state the properties\<close>

text \<open>
  The state that \<open>__init__\<close> leaves: no identities, an empty log; the files are whatever
  the disk holds.
\<close>

definition init_system ::
  "pyfloat \<Rightarrow> bool \<Rightarrow> log_entry list option \<Rightarrow> (string \<rightharpoonup> face_data) option \<Rightarrow> system" where
  "init_system thr cam logs_on_disk faces_on_disk =
     \<lparr>threshold = thr, known_faces = Map.empty, verification_logs = [],
      camera_available = cam, logs_file = logs_on_disk, faces_file = faces_on_disk\<rparr>"

text \<open>
  The encoding a detection contributes: the box passes the size gate, its crop is not
  empty and the extractor returns an encoding.
\<close>

definition candidate ::
  "'img cv \<Rightarrow> 'img \<Rightarrow> int \<times> int \<times> int \<times> int \<Rightarrow> (real list \<times> string) option" where
  "candidate E frame box =
     (case box of
        (x, y, w, h) \<Rightarrow>
          if img_size E (crop E frame x y w h) > 0 \<and> w > 100 \<and> h > 100
          then (case extract_face_encoding E (Some (crop E frame x y w h)) of
                  (Some e, dm) \<Rightarrow> Some (e, dm)
                | (None, dm) \<Rightarrow> None)
          else None)"

text \<open>Attempt \<open>a\<close> of a verification captures a frame whose best distance is below the threshold.\<close>

definition attempt_accepts ::
  "'img cv \<Rightarrow> pyfloat \<Rightarrow> real list \<Rightarrow> string \<Rightarrow> (nat \<Rightarrow> 'img option) \<Rightarrow> nat \<Rightarrow> bool" where
  "attempt_accepts E thr registered_encoding meth camera a =
     (case camera a of
        None \<Rightarrow> False
      | Some frame \<Rightarrow> py_lt (attempt_distance E registered_encoding meth frame) thr)"

text \<open>
  A sample that was extracted from the first detection of a polled frame, a box wider and
  higher than 100.
\<close>

definition from_first_box :: "'img cv \<Rightarrow> 'img poll list \<Rightarrow> real list \<times> string \<Rightarrow> bool" where
  "from_first_box E polls s =
     (\<exists>p\<in>set polls. \<exists>frame x y w h others.
        captured p = Some frame \<and> detect_faces E frame = (x, y, w, h) # others \<and>
        w > 100 \<and> h > 100 \<and>
        extract_face_encoding E (Some (crop E frame x y w h)) = (Some (fst s), snd s))"

subsection \<open>A concrete environment\<close>

text \<open>
  A frame that carries what the detector and the extractor make of it: the boxes found,
  the outcome of the embedding path, and whether \<open>cv2.calcHist\<close> works on it. Crops
  inherit these; gray images are empty.
\<close>

datatype scene = Scene (boxes: "(int \<times> int \<times> int \<times> int) list") (deep: "real list list attempt")
  (hist_ok: bool)

definition scene_cv :: "scene cv" where
  "scene_cv =
     \<lparr>detect_faces_dnn = boxes,
      detect_faces_haar = (\<lambda>s. []),
      crop = (\<lambda>s x y w h. s),
      img_size = (\<lambda>s. 1),
      face_encodings = deep,
      resize = Returns,
      calcHist = (\<lambda>s channel. if hist_ok s then Returns (Some [1]) else Raises),
      normalize = Returns,
      cvtColor_gray = (\<lambda>s. Returns \<lparr>height = 0, width = 0, pixels = []\<rparr>),
      Canny = Returns\<rparr>"

definition demo_io :: run_io where
  "demo_io = \<lparr>now_registered = ''t0'', now_logged = ''t1'', faces_write_ok = True,
              logs_write_ok = True\<rparr>"

text \<open>The feature-based encoding of every scene whose histograms can be computed.\<close>

definition scene_features :: "real list" where
  "scene_features = [1, 1, 1] @ replicate 256 0 @ replicate 20 0"

definition big_box :: "int \<times> int \<times> int \<times> int" where
  "big_box = (0, 0, 200, 200)"

text \<open>An identity enrolled with a one-dimensional embedding, and threshold 0.6.\<close>

definition demo_system :: system where
  "demo_system =
     (init_system (Finite 0.6) True None None)
       \<lparr>known_faces := [''alice'' \<mapsto>
          \<lparr>encoding = [0], method_tag = ''deep_learning'', samples = 3, registered = ''t0''\<rparr>]\<rparr>"

text \<open>A camera whose first frame is at distance 0.6 and whose later frames are at 0.59.\<close>

definition demo_camera :: "nat \<Rightarrow> scene option" where
  "demo_camera a =
     (if a = 0 then Some (Scene [big_box] (Returns [[0.6]]) True)
      else Some (Scene [big_box] (Returns [[0.59]]) True))"

text \<open>Three polls: two frames without an embedding, then one with an embedding.\<close>

definition demo_polls :: "scene poll list" where
  "demo_polls =
     [\<lparr>elapsed_seconds = 1, captured = Some (Scene [big_box] Raises True)\<rparr>,
      \<lparr>elapsed_seconds = 2, captured = Some (Scene [big_box] Raises True)\<rparr>,
      \<lparr>elapsed_seconds = 3, captured = Some (Scene [big_box] (Returns [[1, 2]]) True)\<rparr>]"

subsection \<open>The spec's wording, for comparison\<close>

text \<open>
  The spec's invariant on an identity's method tag: the method of the majority of the
  samples, a tie going to \<open>deep_learning\<close> if there is such a sample and to
  \<open>feature_based\<close> otherwise.
\<close>

definition spec_majority_method :: "(real list \<times> string) list \<Rightarrow> string" where
  "spec_majority_method smp =
     (let dl = length (filter (\<lambda>(e, m). m = ''deep_learning'') smp);
          fb = length (filter (\<lambda>(e, m). m = ''feature_based'') smp)
      in if dl > fb then ''deep_learning''
         else if fb > dl then ''feature_based''
         else if dl > 0 then ''deep_learning''
         else ''feature_based'')"

text \<open>
  The spec's policy for a fresh embedding and a stored feature-based identity: the crop
  is extracted again with the fallback path, and the two feature-based encodings are
  compared.
\<close>

definition spec_mismatch_distance :: "'img cv \<Rightarrow> real list \<Rightarrow> 'img \<Rightarrow> pyfloat" where
  "spec_mismatch_distance E registered_encoding face =
     compare_faces (fallback_features E face) (Some registered_encoding) ''feature_based''"

section \<open>Properties of the similarity engine\<close>

lemma sum_list_zip_nth:
  "length u = length v \<Longrightarrow> sum_list (map h (zip u v)) = (\<Sum>i<length u. h (u ! i, v ! i))"
proof -
  assume len: "length u = length v"
  have "sum_list (map h (zip u v)) = (\<Sum>i = 0..<length (map h (zip u v)). map h (zip u v) ! i)"
    by (rule sum_list_sum_nth)
  also have "\<dots> = (\<Sum>i = 0..<length u. h (u ! i, v ! i))"
    using len by (intro sum.cong) auto
  finally show ?thesis by (simp add: lessThan_atLeast0)
qed

lemma feature_weights_nth:
  "i < length e \<Longrightarrow> feature_weights e ! i = (if 96 \<le> i then 2 else 1)"
  by (auto simp: feature_weights_def Let_def nth_append)

lemma length_feature_weights: "length (feature_weights e) = length e"
  by (auto simp: feature_weights_def Let_def)

lemma sum_list_squares_nonneg: "0 \<le> sum_list (map (\<lambda>v::real. v\<^sup>2) d)"
  by (rule sum_list_nonneg) auto

lemma compare_deep_eq:
  assumes "length u = length v"
  shows "compare_faces (Some u) (Some v) ''deep_learning'' =
         Finite (sqrt (\<Sum>i<length u. (u ! i - v ! i)\<^sup>2))"
  using assms by (simp add: compare_faces_def np_binop_def sum_list_zip_nth)

lemma compare_feature_eq:
  assumes "length u = length v" "m \<noteq> ''deep_learning''"
  shows "compare_faces (Some u) (Some v) m =
         Finite (sqrt (\<Sum>i<length u. ((if 96 \<le> i then 2 else 1) * (u ! i - v ! i))\<^sup>2))"
proof -
  have "(\<Sum>i<length u. (feature_weights u ! i * (u ! i - v ! i))\<^sup>2)
        = (\<Sum>i<length u. ((if 96 \<le> i then 2 else 1) * (u ! i - v ! i))\<^sup>2)"
    by (intro sum.cong) (auto simp: feature_weights_nth)
  then show ?thesis
    using assms
    by (simp add: compare_faces_def np_binop_def length_feature_weights sum_list_zip_nth)
qed

lemma compare_faces_range:
  "compare_faces a b m = PosInf \<or> (\<exists>r\<ge>0. compare_faces a b m = Finite r)"
  using sum_list_squares_nonneg
  by (auto simp: compare_faces_def split: option.splits)

lemma compare_faces_mismatch:
  assumes "length u \<noteq> length v" "length u \<noteq> 1" "length v \<noteq> 1"
  shows "compare_faces (Some u) (Some v) m = PosInf"
  using assms by (simp add: compare_faces_def np_binop_def)

text \<open>
  Claim C7. For encodings of the same length, \<open>compare_faces\<close> with method
  \<open>deep_learning\<close> is the Euclidean norm of the element-wise difference, and with any
  other method it is the weighted Euclidean distance in which the first 96 positions
  (indices 0 to 95, the colour histograms) have weight 1 and every position from index 96
  on (texture and edge segments) has weight 2. If either encoding is \<open>None\<close> the result is
  \<open>+\<infinity>\<close>, and every result is \<open>+\<infinity>\<close> or a real that is at least 0.
\<close>

theorem compare_faces_contract:
  "compare_faces None b m = PosInf \<and>
   compare_faces a None m = PosInf \<and>
   (length u = length v \<longrightarrow>
      compare_faces (Some u) (Some v) ''deep_learning'' =
        Finite (sqrt (\<Sum>i<length u. (u ! i - v ! i)\<^sup>2))) \<and>
   (length u = length v \<and> m \<noteq> ''deep_learning'' \<longrightarrow>
      compare_faces (Some u) (Some v) m =
        Finite (sqrt (\<Sum>i<length u. ((if 96 \<le> i then 2 else 1) * (u ! i - v ! i))\<^sup>2))) \<and>
   (compare_faces a b m = PosInf \<or> (\<exists>r\<ge>0. compare_faces a b m = Finite r))"
proof (intro conjI impI)
  show "compare_faces None b m = PosInf" by (simp add: compare_faces_def)
  show "compare_faces a None m = PosInf" by (simp add: compare_faces_def split: option.splits)
  show "compare_faces a b m = PosInf \<or> (\<exists>r\<ge>0. compare_faces a b m = Finite r)"
    by (rule compare_faces_range)
qed (auto simp: compare_deep_eq compare_feature_eq)

theorem compare_faces_contract_witness:
  "length (replicate 96 (0::real) @ [1]) = length (replicate 97 (0::real)) \<and>
   ''feature_based'' \<noteq> ''deep_learning'' \<and>
   compare_faces (Some (replicate 96 0 @ [1])) (Some (replicate 97 0)) ''deep_learning''
     = Finite 1 \<and>
   compare_faces (Some (replicate 96 0 @ [1])) (Some (replicate 97 0)) ''feature_based''
     = Finite 2"
proof -
  let ?u = "replicate 96 (0::real) @ [1]" and ?v = "replicate 97 (0::real)"
  let ?f = "\<lambda>i. ((if 96 \<le> i then 2 else 1) * (?u ! i - ?v ! i))\<^sup>2"
  let ?g = "\<lambda>i. (?u ! i - ?v ! i)\<^sup>2"
  have "(\<Sum>i<Suc 96. ?f i) = (\<Sum>i<96. ?f i) + ?f 96"
    by (rule sum.lessThan_Suc)
  moreover have "(\<Sum>i<96. ?f i) = 0"
    by (rule sum.neutral) (simp add: nth_append)
  ultimately have f: "(\<Sum>i<length ?u. ?f i) = 4"
    by (simp add: nth_append)
  have "(\<Sum>i<Suc 96. ?g i) = (\<Sum>i<96. ?g i) + ?g 96"
    by (rule sum.lessThan_Suc)
  moreover have "(\<Sum>i<96. ?g i) = 0"
    by (rule sum.neutral) (simp add: nth_append)
  ultimately have g: "(\<Sum>i<length ?u. ?g i) = 1"
    by (simp add: nth_append)
  show ?thesis
    using compare_faces_contract [of _ "''feature_based''" _ ?u ?v] f g
    by simp
qed

lemma compare_faces_refl: "compare_faces (Some u) (Some u) m = Finite 0"
proof (cases "m = ''deep_learning''")
  case True
  then show ?thesis using compare_deep_eq [of u u] by simp
next
  case False
  then show ?thesis using compare_feature_eq [of u u m] by simp
qed

section \<open>Properties of the audit log\<close>

lemma logs_log_verification:
  "verification_logs (log_verification now write_ok user act ok dets S) =
   verification_logs S @ [\<lparr>timestamp = now, username = user, action = act, success = ok,
                            details = (case dets of None \<Rightarrow> [] | Some d \<Rightarrow> d)\<rparr>]"
  by (simp add: log_verification_def save_logs_def Let_def)

lemma known_faces_log_verification:
  "known_faces (log_verification now write_ok user act ok dets S) = known_faces S"
  by (simp add: log_verification_def save_logs_def Let_def)







section \<open>Properties of verification\<close>

lemma run_attempts_none:
  "(\<forall>a<n. \<not> attempt_accepts E thr reg m camera (k + a)) \<Longrightarrow>
   run_attempts E thr reg m camera n k = None"
proof (induction n arbitrary: k)
  case 0
  show ?case by simp
next
  case (Suc n)
  have here: "\<not> attempt_accepts E thr reg m camera k"
    using Suc.prems by (metis add.right_neutral zero_less_Suc)
  have later: "\<forall>a<n. \<not> attempt_accepts E thr reg m camera (Suc k + a)"
    using Suc.prems by (metis Suc_less_eq add_Suc_shift)
  show ?case
    using here Suc.IH [OF later]
    by (simp add: attempt_accepts_def split: option.splits)
qed

lemma run_attempts_first:
  "\<lbrakk>camera (k + a) = Some frame; py_lt (attempt_distance E reg m frame) thr; a < n;
    \<forall>b<a. \<not> attempt_accepts E thr reg m camera (k + b)\<rbrakk>
   \<Longrightarrow> run_attempts E thr reg m camera n k = Some (attempt_distance E reg m frame)"
proof (induction n arbitrary: k a)
  case 0
  then show ?case by simp
next
  case (Suc n)
  show ?case
  proof (cases a)
    case 0
    then show ?thesis using Suc.prems by simp
  next
    case (Suc a')
    have here: "\<not> attempt_accepts E thr reg m camera k"
      using Suc.prems(4) Suc by (metis add.right_neutral zero_less_Suc)
    have later: "\<forall>b<a'. \<not> attempt_accepts E thr reg m camera (Suc k + b)"
      using Suc.prems(4) Suc by (metis Suc_less_eq add_Suc_shift)
    have "run_attempts E thr reg m camera n (Suc k) = Some (attempt_distance E reg m frame)"
      using Suc.prems Suc later by (intro Suc.IH [of "Suc k" a']) auto
    then show ?thesis
      using here by (simp add: attempt_accepts_def split: option.splits)
  qed
qed

lemma run_attempts_Some:
  "run_attempts E thr reg m camera n k = Some d \<Longrightarrow>
   \<exists>a<n. \<exists>frame. camera (k + a) = Some frame \<and> d = attempt_distance E reg m frame \<and> py_lt d thr"
proof (induction n arbitrary: k)
  case 0
  then show ?case by simp
next
  case (Suc n)
  show ?case
  proof (cases "attempt_accepts E thr reg m camera k")
    case True
    then show ?thesis using Suc.prems
      by (auto simp: attempt_accepts_def Let_def split: option.splits intro!: exI [of _ 0])
  next
    case False
    then have "run_attempts E thr reg m camera n (Suc k) = Some d"
      using Suc.prems by (auto simp: attempt_accepts_def Let_def split: option.splits)
    from Suc.IH [OF this] obtain a frame where
      "a < n" "camera (Suc k + a) = Some frame" "d = attempt_distance E reg m frame" "py_lt d thr"
      by blast
    then show ?thesis
      by (intro exI [of _ "Suc a"]) auto
  qed
qed

lemma scan_faces_fold:
  "scan_faces E reg m frame faces best =
   fold (\<lambda>d b. py_min b d)
     (map (\<lambda>(e, dm). candidate_distance reg m e dm) (List.map_filter (candidate E frame) faces))
     best"
proof (induction faces arbitrary: best)
  case Nil
  show ?case by (simp add: List.map_filter_simps)
next
  case (Cons box faces)
  obtain x y w h where box: "box = (x, y, w, h)" by (cases box) auto
  show ?case
    unfolding box
    by (auto simp: Cons.IH candidate_def List.map_filter_simps Let_def split: prod.splits option.splits)
qed

lemma scan_faces_no_candidate:
  "(\<forall>box\<in>set faces. candidate E frame box = None) \<Longrightarrow>
   scan_faces E reg m frame faces best = best"
proof -
  assume "\<forall>box\<in>set faces. candidate E frame box = None"
  then have "List.map_filter (candidate E frame) faces = []"
    by (induction faces) (auto simp: List.map_filter_simps)
  then show ?thesis by (simp add: scan_faces_fold)
qed


lemma py_le_trans: "\<not> py_lt b a \<Longrightarrow> \<not> py_lt c b \<Longrightarrow> \<not> py_lt c a"
  by (cases a; cases b; cases c) auto

lemma py_min_lower: "\<not> py_lt a (py_min a b)" "\<not> py_lt b (py_min a b)"
  by (cases a; cases b; auto simp: py_min_def)+

lemma fold_py_min_lower: "\<not> py_lt best (fold (\<lambda>d b. py_min b d) ds best)"
proof (induction ds arbitrary: best)
  case Nil
  show ?case by (cases best) auto
next
  case (Cons d ds)
  show ?case
    using py_le_trans [OF Cons.IH [of "py_min best d"] py_min_lower(1) [of best d]]
    by simp
qed

lemma fold_py_min_least:
  "d \<in> set ds \<Longrightarrow> \<not> py_lt d (fold (\<lambda>d b. py_min b d) ds best)"
proof (induction ds arbitrary: best)
  case Nil
  then show ?case by simp
next
  case (Cons c ds)
  show ?case
  proof (cases "d = c")
    case True
    show ?thesis
      using py_le_trans [OF fold_py_min_lower [of "py_min best c" ds] py_min_lower(2) [of c best]] True
      by simp
  next
    case False
    then show ?thesis using Cons by auto
  qed
qed

lemma fold_py_min_member:
  "fold (\<lambda>d b. py_min b d) ds best = best \<or> fold (\<lambda>d b. py_min b d) ds best \<in> set ds"
proof (induction ds arbitrary: best)
  case Nil
  show ?case by simp
next
  case (Cons c ds)
  show ?case
    using Cons.IH [of "py_min best c"] by (auto simp: py_min_def)
qed

lemma set_map_filter: "set (List.map_filter f xs) = {y. \<exists>x\<in>set xs. f x = Some y}"
  by (induction xs) (auto simp: List.map_filter_simps split: option.splits)

lemma attempt_distance_least:
  assumes "box \<in> set (detect_faces E frame)" "candidate E frame box = Some (e, dm)"
  shows "\<not> py_lt (candidate_distance reg m e dm) (attempt_distance E reg m frame)"
proof -
  have "(e, dm) \<in> set (List.map_filter (candidate E frame) (detect_faces E frame))"
    using assms by (auto simp: set_map_filter)
  then have "candidate_distance reg m e dm \<in>
      set (map (\<lambda>(e, dm). candidate_distance reg m e dm)
             (List.map_filter (candidate E frame) (detect_faces E frame)))"
    by force
  then show ?thesis
    unfolding attempt_distance_def scan_faces_fold by (rule fold_py_min_least)
qed

lemma attempt_distance_member:
  "attempt_distance E reg m frame = PosInf \<or>
   (\<exists>box\<in>set (detect_faces E frame). \<exists>e dm. candidate E frame box = Some (e, dm) \<and>
       attempt_distance E reg m frame = candidate_distance reg m e dm)"
proof -
  let ?ds = "map (\<lambda>(e, dm). candidate_distance reg m e dm)
             (List.map_filter (candidate E frame) (detect_faces E frame))"
  have "fold (\<lambda>d b. py_min b d) ?ds PosInf = PosInf \<or> fold (\<lambda>d b. py_min b d) ?ds PosInf \<in> set ?ds"
    by (rule fold_py_min_member)
  then show ?thesis
    unfolding attempt_distance_def scan_faces_fold
    by (auto simp: set_map_filter)
qed

lemma verify_user_accept:
  assumes "known_faces S user = Some ud" "camera_available S"
    and "a < n" "camera a = Some frame"
    and "py_lt (attempt_distance E (encoding ud) (method_tag ud) frame) (threshold S)"
    and "\<forall>b<a. \<not> attempt_accepts E (threshold S) (encoding ud) (method_tag ud) camera b"
  shows "verify_user E io S user n camera =
         (True, log_verification (now_logged io) (logs_write_ok io) user ''verification'' True
            (Some [(''distance'',
                    FloatDetail (attempt_distance E (encoding ud) (method_tag ud) frame))]) S)"
proof -
  have "run_attempts E (threshold S) (encoding ud) (method_tag ud) camera n 0 =
        Some (attempt_distance E (encoding ud) (method_tag ud) frame)"
    using assms by (intro run_attempts_first [of camera 0 a]) auto
  then show ?thesis using assms(1,2) by (simp add: verify_user_def)
qed

lemma verify_user_reject:
  assumes "known_faces S user = Some ud" "camera_available S"
    and "\<forall>a<n. \<not> attempt_accepts E (threshold S) (encoding ud) (method_tag ud) camera a"
  shows "verify_user E io S user n camera =
         (False, log_verification (now_logged io) (logs_write_ok io) user ''verification'' False
            (Some [(''attempts'', IntDetail (int n))]) S)"
proof -
  have "run_attempts E (threshold S) (encoding ud) (method_tag ud) camera n 0 = None"
    using assms(3) by (intro run_attempts_none) auto
  then show ?thesis using assms(1,2) by (simp add: verify_user_def)
qed

text \<open>
  Claim C5. For an enrolled identity and an available camera, an attempt accepts exactly
  when it captures a frame whose best distance is strictly below the threshold. The best
  distance of a frame is \<open>+\<infinity>\<close> or the distance of one of its candidates, and no candidate
  has a smaller distance. The first accepting attempt ends the run: \<open>verify_user\<close> returns
  \<open>True\<close> and appends a success event carrying that distance. When no attempt below
  \<open>max_attempts\<close> accepts it returns \<open>False\<close> and appends a failure event carrying the
  number of attempts.
\<close>

theorem verify_user_decision:
  assumes "known_faces S user = Some ud" and "camera_available S"
  shows
    "(\<forall>a frame.
        a < n \<and> camera a = Some frame \<and>
        py_lt (attempt_distance E (encoding ud) (method_tag ud) frame) (threshold S) \<and>
        (\<forall>b<a. \<not> attempt_accepts E (threshold S) (encoding ud) (method_tag ud) camera b) \<longrightarrow>
        fst (verify_user E io S user n camera) \<and>
        verification_logs (snd (verify_user E io S user n camera)) =
          verification_logs S @
          [\<lparr>timestamp = now_logged io, username = user, action = ''verification'',
            success = True,
            details = [(''distance'',
                        FloatDetail (attempt_distance E (encoding ud) (method_tag ud) frame))]\<rparr>]) \<and>
     ((\<forall>a<n. \<not> attempt_accepts E (threshold S) (encoding ud) (method_tag ud) camera a) \<longrightarrow>
        \<not> fst (verify_user E io S user n camera) \<and>
        verification_logs (snd (verify_user E io S user n camera)) =
          verification_logs S @
          [\<lparr>timestamp = now_logged io, username = user, action = ''verification'',
            success = False, details = [(''attempts'', IntDetail (int n))]\<rparr>]) \<and>
     (\<forall>frame.
        (attempt_distance E (encoding ud) (method_tag ud) frame = PosInf \<or>
         (\<exists>box\<in>set (detect_faces E frame). \<exists>e dm. candidate E frame box = Some (e, dm) \<and>
            attempt_distance E (encoding ud) (method_tag ud) frame =
              candidate_distance (encoding ud) (method_tag ud) e dm)) \<and>
        (\<forall>box\<in>set (detect_faces E frame). \<forall>e dm. candidate E frame box = Some (e, dm) \<longrightarrow>
           \<not> py_lt (candidate_distance (encoding ud) (method_tag ud) e dm)
                   (attempt_distance E (encoding ud) (method_tag ud) frame)))"
proof (intro conjI allI impI ballI)
  fix a frame
  assume h: "a < n \<and> camera a = Some frame \<and>
        py_lt (attempt_distance E (encoding ud) (method_tag ud) frame) (threshold S) \<and>
        (\<forall>b<a. \<not> attempt_accepts E (threshold S) (encoding ud) (method_tag ud) camera b)"
  then have v: "verify_user E io S user n camera =
         (True, log_verification (now_logged io) (logs_write_ok io) user ''verification'' True
            (Some [(''distance'',
                    FloatDetail (attempt_distance E (encoding ud) (method_tag ud) frame))]) S)"
    using assms by (intro verify_user_accept) auto
  show "fst (verify_user E io S user n camera)" by (simp add: v)
  show "verification_logs (snd (verify_user E io S user n camera)) =
          verification_logs S @
          [\<lparr>timestamp = now_logged io, username = user, action = ''verification'',
            success = True,
            details = [(''distance'',
                        FloatDetail (attempt_distance E (encoding ud) (method_tag ud) frame))]\<rparr>]"
    by (simp add: v logs_log_verification)
next
  assume h: "\<forall>a<n. \<not> attempt_accepts E (threshold S) (encoding ud) (method_tag ud) camera a"
  have v: "verify_user E io S user n camera =
         (False, log_verification (now_logged io) (logs_write_ok io) user ''verification'' False
            (Some [(''attempts'', IntDetail (int n))]) S)"
    using assms h by (intro verify_user_reject) auto
  show "\<not> fst (verify_user E io S user n camera)" by (simp add: v)
  show "verification_logs (snd (verify_user E io S user n camera)) =
          verification_logs S @
          [\<lparr>timestamp = now_logged io, username = user, action = ''verification'',
            success = False, details = [(''attempts'', IntDetail (int n))]\<rparr>]"
    by (simp add: v logs_log_verification)
next
  fix frame
  show "attempt_distance E (encoding ud) (method_tag ud) frame = PosInf \<or>
         (\<exists>box\<in>set (detect_faces E frame). \<exists>e dm. candidate E frame box = Some (e, dm) \<and>
            attempt_distance E (encoding ud) (method_tag ud) frame =
              candidate_distance (encoding ud) (method_tag ud) e dm)"
    by (rule attempt_distance_member)
next
  fix frame box e dm
  assume "box \<in> set (detect_faces E frame)" "candidate E frame box = Some (e, dm)"
  then show "\<not> py_lt (candidate_distance (encoding ud) (method_tag ud) e dm)
                   (attempt_distance E (encoding ud) (method_tag ud) frame)"
    by (rule attempt_distance_least)
qed

subsection \<open>The concrete environment\<close>

lemma np_histogram_Nil: "np_histogram [] n = replicate n 0"
  by (simp add: np_histogram_def map_replicate_const)

lemma scene_detect: "detect_faces scene_cv s = boxes s"
  by (simp add: detect_faces_def scene_cv_def Let_def)

lemma scene_fallback:
  "fallback_features scene_cv s = (if hist_ok s then Some scene_features else None)"
  by (simp add: fallback_features_def scene_cv_def scene_features_def
      extract_lbp_features_def edge_features_def np_histogram_Nil Let_def)

lemma scene_extract:
  "extract_face_encoding scene_cv (Some s) =
     (case deep s of
        Returns (e # es) \<Rightarrow> (Some e, ''deep_learning'')
      | _ \<Rightarrow> if hist_ok s then (Some scene_features, ''feature_based'') else (None, ''error''))"
proof -
  have "img_size scene_cv s = 1" "face_encodings scene_cv s = deep s"
    by (simp_all add: scene_cv_def)
  then show ?thesis
    by (simp add: extract_face_encoding_def scene_fallback split: attempt.splits list.splits)
qed

lemma scene_candidate:
  "candidate scene_cv s (x, y, w, h) =
     (if w > 100 \<and> h > 100
      then (case extract_face_encoding scene_cv (Some s) of
              (Some e, dm) \<Rightarrow> Some (e, dm) | (None, dm) \<Rightarrow> None)
      else None)"
  by (simp add: candidate_def) (simp add: scene_cv_def)

lemma compare_singleton:
  "compare_faces (Some [a]) (Some [b]) ''deep_learning'' = Finite \<bar>a - b\<bar>"
  by (simp add: compare_faces_def np_binop_def)

lemma demo_distance:
  "attempt_distance scene_cv [0] ''deep_learning'' (Scene [big_box] (Returns [[d]]) True)
   = Finite \<bar>d\<bar>"
  by (simp add: attempt_distance_def scan_faces_fold scene_detect big_box_def scene_candidate
      scene_extract List.map_filter_simps candidate_distance_def compare_singleton py_min_def)

lemma demo_verify_accepts:
  "fst (verify_user scene_cv demo_io demo_system ''alice'' 3 demo_camera)"
proof -
  let ?ud = "\<lparr>encoding = [0], method_tag = ''deep_learning'', samples = 3, registered = ''t0''\<rparr>"
  have k: "known_faces demo_system ''alice'' = Some ?ud" and c: "camera_available demo_system"
    and thr: "threshold demo_system = Finite 0.6"
    by (simp_all add: demo_system_def init_system_def)
  have "verify_user scene_cv demo_io demo_system ''alice'' 3 demo_camera =
         (True, log_verification (now_logged demo_io) (logs_write_ok demo_io) ''alice''
            ''verification'' True
            (Some [(''distance'',
                    FloatDetail (attempt_distance scene_cv (encoding ?ud) (method_tag ?ud)
                       (Scene [big_box] (Returns [[0.59]]) True)))]) demo_system)"
    by (rule verify_user_accept [OF k c, of 1])
       (simp_all add: thr demo_camera_def demo_distance attempt_accepts_def)
  then show ?thesis by simp
qed

theorem verify_user_decision_witness:
  "known_faces demo_system ''alice'' =
     Some \<lparr>encoding = [0], method_tag = ''deep_learning'', samples = 3, registered = ''t0''\<rparr> \<and>
   camera_available demo_system \<and>
   fst (verify_user scene_cv demo_io demo_system ''alice'' 3 demo_camera) \<and>
   verification_logs (snd (verify_user scene_cv demo_io demo_system ''alice'' 3 demo_camera)) =
     [\<lparr>timestamp = ''t1'', username = ''alice'', action = ''verification'', success = True,
       details = [(''distance'', FloatDetail (Finite 0.59))]\<rparr>] \<and>
   \<not> fst (verify_user scene_cv demo_io demo_system ''alice'' 1 demo_camera) \<and>
   verification_logs (snd (verify_user scene_cv demo_io demo_system ''alice'' 1 demo_camera)) =
     [\<lparr>timestamp = ''t1'', username = ''alice'', action = ''verification'', success = False,
       details = [(''attempts'', IntDetail 1)]\<rparr>]"
proof -
  let ?ud = "\<lparr>encoding = [0], method_tag = ''deep_learning'', samples = 3, registered = ''t0''\<rparr>"
  have k: "known_faces demo_system ''alice'' = Some ?ud" and c: "camera_available demo_system"
    and thr: "threshold demo_system = Finite 0.6" and l: "verification_logs demo_system = []"
    by (simp_all add: demo_system_def init_system_def)
  have a0: "\<not> attempt_accepts scene_cv (Finite 0.6) [0] ''deep_learning'' demo_camera 0"
    by (simp add: attempt_accepts_def demo_camera_def demo_distance)
  have a1: "py_lt (attempt_distance scene_cv [0] ''deep_learning''
                     (Scene [big_box] (Returns [[0.59]]) True)) (Finite 0.6)"
    by (simp add: demo_distance)
  note T3 = verify_user_decision [OF k c, where n = 3 and camera = demo_camera and E = scene_cv
      and io = demo_io]
  note T1 = verify_user_decision [OF k c, where n = 1 and camera = demo_camera and E = scene_cv
      and io = demo_io]
  have "fst (verify_user scene_cv demo_io demo_system ''alice'' 3 demo_camera) \<and>
    verification_logs (snd (verify_user scene_cv demo_io demo_system ''alice'' 3 demo_camera)) =
     [\<lparr>timestamp = ''t1'', username = ''alice'', action = ''verification'', success = True,
       details = [(''distance'', FloatDetail (Finite 0.59))]\<rparr>]"
    using T3 [THEN conjunct1, rule_format, of 1 "Scene [big_box] (Returns [[0.59]]) True"] a0 a1
    by (simp add: thr l demo_camera_def demo_io_def demo_distance)
  moreover have "\<not> fst (verify_user scene_cv demo_io demo_system ''alice'' 1 demo_camera) \<and>
   verification_logs (snd (verify_user scene_cv demo_io demo_system ''alice'' 1 demo_camera)) =
     [\<lparr>timestamp = ''t1'', username = ''alice'', action = ''verification'', success = False,
       details = [(''attempts'', IntDetail 1)]\<rparr>]"
    using T1 [THEN conjunct2, THEN conjunct1] a0
    by (simp add: thr l demo_io_def)
  ultimately show ?thesis using k c by simp
qed


text \<open>
  Claim C10. If no detection of a frame passes the size gate with a non-empty crop and an
  extracted encoding, the best distance of the attempt stays \<open>+\<infinity>\<close> and is not below any
  threshold. Hence a verification that returns \<open>True\<close> has an attempt whose frame holds a
  detection that produced an encoding.
\<close>

theorem no_candidate_no_accept:
  "((\<forall>box\<in>set (detect_faces E frame). candidate E frame box = None) \<longrightarrow>
      attempt_distance E reg m frame = PosInf \<and> \<not> py_lt (attempt_distance E reg m frame) thr) \<and>
   (fst (verify_user E io S user n camera) \<longrightarrow>
      (\<exists>a<n. \<exists>frame. camera a = Some frame \<and>
         (\<exists>box\<in>set (detect_faces E frame). \<exists>e dm. candidate E frame box = Some (e, dm))))"
proof (intro conjI impI)
  assume none: "\<forall>box\<in>set (detect_faces E frame). candidate E frame box = None"
  then show "attempt_distance E reg m frame = PosInf"
    by (simp add: attempt_distance_def scan_faces_no_candidate)
  then show "\<not> py_lt (attempt_distance E reg m frame) thr" by simp
next
  assume acc: "fst (verify_user E io S user n camera)"
  then obtain ud where ud: "known_faces S user = Some ud"
    by (auto simp: verify_user_def split: option.splits)
  from acc ud obtain d where
    "run_attempts E (threshold S) (encoding ud) (method_tag ud) camera n 0 = Some d"
    by (auto simp: verify_user_def split: option.splits if_splits)
  from run_attempts_Some [OF this] obtain a frame where a: "a < n" "camera a = Some frame"
    and lt: "py_lt (attempt_distance E (encoding ud) (method_tag ud) frame) (threshold S)"
    by auto
  from lt have "attempt_distance E (encoding ud) (method_tag ud) frame \<noteq> PosInf"
    by auto
  then have "\<exists>box\<in>set (detect_faces E frame). \<exists>e dm. candidate E frame box = Some (e, dm)"
    using attempt_distance_member [of E "encoding ud" "method_tag ud" frame] by auto
  then show "\<exists>a<n. \<exists>frame. camera a = Some frame \<and>
         (\<exists>box\<in>set (detect_faces E frame). \<exists>e dm. candidate E frame box = Some (e, dm))"
    using a by blast
qed

theorem no_candidate_no_accept_witness:
  "detect_faces scene_cv (Scene [(0, 0, 100, 300)] (Returns [[0]]) True) = [(0, 0, 100, 300)] \<and>
   candidate scene_cv (Scene [(0, 0, 100, 300)] (Returns [[0]]) True) (0, 0, 100, 300) = None \<and>
   attempt_distance scene_cv [0] ''deep_learning'' (Scene [(0, 0, 100, 300)] (Returns [[0]]) True)
     = PosInf \<and>
   fst (verify_user scene_cv demo_io demo_system ''alice'' 3 demo_camera) \<and>
   (\<exists>a<3. \<exists>frame. demo_camera a = Some frame \<and>
      (\<exists>box\<in>set (detect_faces scene_cv frame). \<exists>e dm.
          candidate scene_cv frame box = Some (e, dm)))"
proof -
  let ?f = "Scene [(0, 0, 100, 300)] (Returns [[0]]) True"
  have d: "detect_faces scene_cv ?f = [(0, 0, 100, 300)]" by (simp add: scene_detect)
  have c: "candidate scene_cv ?f (0, 0, 100, 300) = None" by (simp add: scene_candidate)
  have acc: "fst (verify_user scene_cv demo_io demo_system ''alice'' 3 demo_camera)"
    by (rule demo_verify_accepts)
  show ?thesis
    using no_candidate_no_accept [of scene_cv ?f "[0]" "''deep_learning''" "Finite 0.6"
        demo_io demo_system "''alice''" 3 demo_camera] d c acc
    by simp
qed

text \<open>
  Claim C4 as stated fails. The stored identity is feature-based and the frame yields the
  embedding \<open>[3, 4]\<close>: the code compares the embedding itself with the stored encoding and
  gets \<open>+\<infinity>\<close>, where re-extracting the crop with the fallback path would give distance 0.
\<close>

theorem mixed_method_counterexample:
  "extract_face_encoding scene_cv (Some (Scene [big_box] (Returns [[3, 4]]) True))
     = (Some [3, 4], ''deep_learning'') \<and>
   attempt_distance scene_cv scene_features ''feature_based''
     (Scene [big_box] (Returns [[3, 4]]) True) = PosInf \<and>
   spec_mismatch_distance scene_cv scene_features (Scene [big_box] (Returns [[3, 4]]) True)
     = Finite 0"
proof -
  have "length scene_features = 279" by (simp add: scene_features_def)
  then have "compare_faces (Some [3, 4]) (Some scene_features) ''feature_based'' = PosInf"
    by (intro compare_faces_mismatch) auto
  then show ?thesis
    by (simp add: attempt_distance_def scan_faces_fold scene_detect big_box_def scene_candidate
      scene_extract List.map_filter_simps candidate_distance_def py_min_def
      spec_mismatch_distance_def scene_fallback compare_faces_refl)
qed

text \<open>
  Claim C4, amended. When the method of the extracted encoding differs from the stored
  method, the distance of the candidate is \<open>compare_faces\<close> with the feature-based
  weighting applied to the extracted encoding and the stored encoding as they are;
  nothing is extracted again. When the two lengths differ and neither is 1 that distance
  is \<open>+\<infinity>\<close>. The best distance of a frame is the least of these distances over its
  candidates.
\<close>

theorem mixed_method_distance:
  "(dm \<noteq> m \<longrightarrow>
      candidate_distance reg m e dm = compare_faces (Some e) (Some reg) ''feature_based'') \<and>
   (dm \<noteq> m \<and> length e \<noteq> length reg \<and> length e \<noteq> 1 \<and> length reg \<noteq> 1 \<longrightarrow>
      candidate_distance reg m e dm = PosInf) \<and>
   attempt_distance E reg m frame =
     fold (\<lambda>d best. py_min best d)
       (map (\<lambda>(e, dm). if dm = m then compare_faces (Some e) (Some reg) m
                        else compare_faces (Some e) (Some reg) ''feature_based'')
          (List.map_filter (candidate E frame) (detect_faces E frame)))
       PosInf"
proof (intro conjI impI)
  show "attempt_distance E reg m frame =
     fold (\<lambda>d best. py_min best d)
       (map (\<lambda>(e, dm). if dm = m then compare_faces (Some e) (Some reg) m
                        else compare_faces (Some e) (Some reg) ''feature_based'')
          (List.map_filter (candidate E frame) (detect_faces E frame)))
       PosInf"
    unfolding attempt_distance_def scan_faces_fold candidate_distance_def
    by (rule arg_cong [where f = "\<lambda>ds. fold (\<lambda>d best. py_min best d) ds PosInf"]) auto
qed (auto simp: candidate_distance_def compare_faces_mismatch)

theorem mixed_method_distance_witness:
  "''deep_learning'' \<noteq> ''feature_based'' \<and> length [3, 4 :: real] \<noteq> length scene_features \<and>
   length [3, 4 :: real] \<noteq> 1 \<and> length scene_features \<noteq> 1 \<and>
   candidate_distance scene_features ''feature_based'' [3, 4] ''deep_learning'' = PosInf \<and>
   candidate_distance [0, 0] ''feature_based'' [3, 4] ''deep_learning''
     = compare_faces (Some [3, 4]) (Some [0, 0]) ''feature_based'' \<and>
   compare_faces (Some [3, 4]) (Some [0, 0]) ''feature_based'' = Finite 5"
proof -
  have l: "length scene_features = 279" by (simp add: scene_features_def)
  have five: "compare_faces (Some [3, 4]) (Some [0, 0]) ''feature_based'' = Finite 5"
    using compare_feature_eq [of "[3, 4]" "[0, 0]" "''feature_based''"]
    by (simp add: lessThan_Suc numeral_2_eq_2)
  show ?thesis
  proof -
    have "candidate_distance scene_features ''feature_based'' [3, 4] ''deep_learning'' = PosInf"
      using mixed_method_distance [of "''deep_learning''" "''feature_based''" scene_features
          "[3, 4]" scene_cv "Scene [] Raises True", THEN conjunct2, THEN conjunct1] l
      by simp
    moreover have "candidate_distance [0, 0] ''feature_based'' [3, 4] ''deep_learning''
        = compare_faces (Some [3, 4]) (Some [0, 0]) ''feature_based''"
      using mixed_method_distance [of "''deep_learning''" "''feature_based''" "[0, 0]" "[3, 4]"
          scene_cv "Scene [] Raises True", THEN conjunct1]
      by simp
    ultimately show ?thesis using l five by simp
  qed
qed

section \<open>Properties of enrollment\<close>

lemma poll_sample_candidate:
  "poll_sample E frame =
     (case detect_faces E frame of [] \<Rightarrow> None | box # others \<Rightarrow> candidate E frame box)"
  by (auto simp: poll_sample_def candidate_def Let_def split: list.splits prod.splits option.splits)

lemma candidate_small: "w \<le> 100 \<or> h \<le> 100 \<Longrightarrow> candidate E frame (x, y, w, h) = None"
  by (auto simp: candidate_def)

lemma candidate_Some:
  "candidate E frame (x, y, w, h) = Some (e, dm) \<longleftrightarrow>
     img_size E (crop E frame x y w h) > 0 \<and> w > 100 \<and> h > 100 \<and>
     extract_face_encoding E (Some (crop E frame x y w h)) = (Some e, dm)"
  by (auto simp: candidate_def split: prod.splits option.splits)

lemma collect_samples_done:
  "\<not> sample_count < n \<Longrightarrow> collect_samples E n polls smp sample_count = Some (Collected smp)"
  by (subst collect_samples.simps) simp

lemma collect_samples_Nil:
  "sample_count < n \<Longrightarrow> collect_samples E n [] smp sample_count = None"
  by (subst collect_samples.simps) simp

lemma collect_samples_timeout:
  assumes "sample_count < n" "elapsed_seconds p > 30"
  shows "collect_samples E n (p # rest) smp sample_count = Some TimedOut"
  using assms by (subst collect_samples.simps) simp

lemma collect_samples_no_frame:
  assumes "sample_count < n" "\<not> elapsed_seconds p > 30" "captured p = None"
  shows "collect_samples E n (p # rest) smp sample_count = collect_samples E n rest smp sample_count"
  using assms by (subst collect_samples.simps) simp

lemma collect_samples_skip:
  assumes "sample_count < n" "\<not> elapsed_seconds p > 30" "captured p = Some frame"
    "poll_sample E frame = None"
  shows "collect_samples E n (p # rest) smp sample_count = collect_samples E n rest smp sample_count"
  using assms by (subst collect_samples.simps) simp

lemma collect_samples_take:
  assumes "sample_count < n" "\<not> elapsed_seconds p > 30" "captured p = Some frame"
    "poll_sample E frame = Some s"
  shows "collect_samples E n (p # rest) smp sample_count =
         collect_samples E n rest (smp @ [s]) (sample_count + 1)"
  using assms by (subst collect_samples.simps) simp

lemma poll_sample_from_first_box:
  assumes "poll_sample E frame = Some s" "captured p = Some frame" "p \<in> set polls"
  shows "from_first_box E polls s"
proof -
  from assms(1) obtain box others where d: "detect_faces E frame = box # others"
    and c: "candidate E frame box = Some s"
    by (auto simp: poll_sample_candidate split: list.splits)
  obtain x y w h where box: "box = (x, y, w, h)" by (cases box) auto
  obtain e dm where s: "s = (e, dm)" by (cases s) auto
  from c have "w > 100" "h > 100"
    "extract_face_encoding E (Some (crop E frame x y w h)) = (Some e, dm)"
    unfolding box s by (simp_all add: candidate_Some)
  then show ?thesis
    unfolding from_first_box_def using assms(2,3) d box s by force
qed

lemma collect_samples_from_first_box:
  assumes "collect_samples E n polls acc c = Some (Collected smp)"
    and "\<forall>s\<in>set acc. from_first_box E all s"
    and "set polls \<subseteq> set all"
  shows "\<forall>s\<in>set smp. from_first_box E all s"
  using assms
proof (induction polls arbitrary: acc c)
  case Nil
  then show ?case
    by (cases "c < n") (simp_all add: collect_samples_done collect_samples_Nil)
next
  case (Cons p rest)
  show ?case
  proof (cases "c < n")
    case False
    then show ?thesis using Cons.prems by (simp add: collect_samples_done)
  next
    case True
    note c = this
    show ?thesis
    proof (cases "elapsed_seconds p > 30")
      case True
      then show ?thesis using Cons.prems c by (simp add: collect_samples_timeout)
    next
      case False
      note e = this
      show ?thesis
      proof (cases "captured p")
        case None
        then show ?thesis
          using Cons.prems c e Cons.IH [of acc c] by (simp add: collect_samples_no_frame)
      next
        case (Some frame)
        note f = this
        show ?thesis
        proof (cases "poll_sample E frame")
          case None
          then show ?thesis
            using Cons.prems c e f Cons.IH [of acc c] by (simp add: collect_samples_skip)
        next
          case (Some s)
          have "from_first_box E all s"
            using poll_sample_from_first_box [OF Some f] Cons.prems(3) by auto
          then show ?thesis
            using Cons.prems c e f Some Cons.IH [of "acc @ [s]" "c + 1"]
            by (simp add: collect_samples_take)
        qed
      qed
    qed
  qed
qed

lemma collect_samples_returns:
  "\<exists>p\<in>set polls. elapsed_seconds p > 30 \<Longrightarrow> collect_samples E n polls acc c \<noteq> None"
proof (induction polls arbitrary: acc c)
  case Nil
  then show ?case by simp
next
  case (Cons p rest)
  show ?case
  proof (cases "c < n")
    case False
    then show ?thesis by (simp add: collect_samples_done)
  next
    case True
    note c = this
    show ?thesis
    proof (cases "elapsed_seconds p > 30")
      case True
      then show ?thesis using c by (simp add: collect_samples_timeout)
    next
      case False
      then have later: "\<exists>p\<in>set rest. elapsed_seconds p > 30" using Cons.prems by auto
      show ?thesis
      proof (cases "captured p")
        case None
        then show ?thesis
          using c False Cons.IH [OF later] by (simp add: collect_samples_no_frame)
      next
        case (Some frame)
        then show ?thesis
          using c False Cons.IH [OF later]
          by (cases "poll_sample E frame")
             (simp_all add: collect_samples_skip collect_samples_take)
      qed
    qed
  qed
qed


text \<open>
  Claim C6, amended. In enrollment only the first detection of a frame is looked at. If
  its box has width at most 100 or height at most 100, no sample is recorded and the loop
  goes on collecting; a box wider and higher than 100 whose crop is not empty is passed to
  the extractor, and an extracted encoding is appended as a sample. Every collected sample
  therefore comes from a first detection wider and higher than 100.
\<close>

theorem enrollment_size_gate:
  "poll_sample E frame =
     (case detect_faces E frame of [] \<Rightarrow> None | box # others \<Rightarrow> candidate E frame box) \<and>
   (w \<le> 100 \<or> h \<le> 100 \<longrightarrow> candidate E frame (x, y, w, h) = None) \<and>
   (w > 100 \<and> h > 100 \<and> img_size E (crop E frame x y w h) > 0 \<longrightarrow>
      candidate E frame (x, y, w, h) =
        (case extract_face_encoding E (Some (crop E frame x y w h)) of
           (Some e, dm) \<Rightarrow> Some (e, dm)
         | (None, dm) \<Rightarrow> None)) \<and>
   (sample_count < n \<and> elapsed_seconds p \<le> 30 \<and> captured p = Some frame \<and>
    poll_sample E frame = None \<longrightarrow>
      collect_samples E n (p # rest) smp sample_count =
        collect_samples E n rest smp sample_count) \<and>
   (sample_count < n \<and> elapsed_seconds p \<le> 30 \<and> captured p = Some frame \<and>
    poll_sample E frame = Some s \<longrightarrow>
      collect_samples E n (p # rest) smp sample_count =
        collect_samples E n rest (smp @ [s]) (sample_count + 1)) \<and>
   (collect_samples E n polls [] 0 = Some (Collected got) \<longrightarrow>
      (\<forall>s\<in>set got. from_first_box E polls s))"
proof (intro conjI impI)
  show "poll_sample E frame =
     (case detect_faces E frame of [] \<Rightarrow> None | box # others \<Rightarrow> candidate E frame box)"
    by (rule poll_sample_candidate)
  show "candidate E frame (x, y, w, h) = None" if "w \<le> 100 \<or> h \<le> 100"
    using that by (rule candidate_small)
  show "candidate E frame (x, y, w, h) =
        (case extract_face_encoding E (Some (crop E frame x y w h)) of
           (Some e, dm) \<Rightarrow> Some (e, dm)
         | (None, dm) \<Rightarrow> None)"
    if "w > 100 \<and> h > 100 \<and> img_size E (crop E frame x y w h) > 0"
    using that by (simp add: candidate_def)
  show "collect_samples E n (p # rest) smp sample_count =
        collect_samples E n rest smp sample_count"
    if "sample_count < n \<and> elapsed_seconds p \<le> 30 \<and> captured p = Some frame \<and>
        poll_sample E frame = None"
    using that by (intro collect_samples_skip) auto
  show "collect_samples E n (p # rest) smp sample_count =
        collect_samples E n rest (smp @ [s]) (sample_count + 1)"
    if "sample_count < n \<and> elapsed_seconds p \<le> 30 \<and> captured p = Some frame \<and>
        poll_sample E frame = Some s"
    using that by (intro collect_samples_take) auto
  show "\<forall>s\<in>set got. from_first_box E polls s"
    if "collect_samples E n polls [] 0 = Some (Collected got)"
    using that by (rule collect_samples_from_first_box) auto
qed

lemma known_faces_save_data: "known_faces (save_data ok S) = known_faces S"
  by (simp add: save_data_def)

lemma store_user_result:
  "store_user io S user avg m k = (r, S') \<Longrightarrow>
   r = Returned True \<and>
   known_faces S' = (known_faces S)(user \<mapsto>
      \<lparr>encoding = avg, method_tag = m, samples = k, registered = now_registered io\<rparr>) \<and>
   verification_logs S' = verification_logs S @
      [\<lparr>timestamp = now_logged io, username = user, action = ''registration'', success = True,
        details = [(''samples'', IntDetail (int k))]\<rparr>]"
  by (auto simp: store_user_def Let_def known_faces_log_verification known_faces_save_data
      logs_log_verification save_data_def)

lemma has_method_iff:
  "map fst (filter (\<lambda>(e, m). m = t) smp) \<noteq> [] \<longleftrightarrow> (\<exists>e. (e, t) \<in> set smp)"
  by (auto simp: filter_empty_conv)

lemma commit_samples_fail: "commit_samples io S user smp = (r, S') \<Longrightarrow> r \<noteq> Returned True \<Longrightarrow> S' = S"
  by (auto simp: commit_samples_def Let_def split: if_splits option.splits
      dest: store_user_result)

lemma commit_samples_success:
  assumes "commit_samples io S user smp = (Returned True, S')"
  shows "\<exists>fd. known_faces S' = (known_faces S)(user \<mapsto> fd) \<and> samples fd = length smp \<and>
           method_tag fd = (if \<exists>e. (e, ''deep_learning'') \<in> set smp then ''deep_learning''
                            else ''feature_based'') \<and>
           np_mean_axis0 (map fst (filter (\<lambda>(e, m). m = method_tag fd) smp)) = Some (encoding fd)"
proof (cases "\<exists>e. (e, ''deep_learning'') \<in> set smp")
  case True
  then have dl: "map fst (filter (\<lambda>(e, m). m = ''deep_learning'') smp) \<noteq> []"
    using has_method_iff [of "''deep_learning''" smp] by blast
  then have "smp \<noteq> []" by auto
  with assms dl obtain avg where
    avg: "np_mean_axis0 (map fst (filter (\<lambda>(e, m). m = ''deep_learning'') smp)) = Some avg"
    and st: "store_user io S user avg ''deep_learning'' (length smp) = (Returned True, S')"
    by (auto simp: commit_samples_def Let_def split: option.splits)
  from store_user_result [OF st] avg True show ?thesis by auto
next
  case False
  then have dl: "map fst (filter (\<lambda>(e, m). m = ''deep_learning'') smp) = []"
    using has_method_iff [of "''deep_learning''" smp] by blast
  with assms obtain avg where
    avg: "np_mean_axis0 (map fst (filter (\<lambda>(e, m). m = ''feature_based'') smp)) = Some avg"
    and st: "store_user io S user avg ''feature_based'' (length smp) = (Returned True, S')"
    by (auto simp: commit_samples_def Let_def split: option.splits if_splits)
  from store_user_result [OF st] avg False show ?thesis by auto
qed

text \<open>
  Claim C1, amended. An enrollment that commits stores, under the user's name, a record
  whose method tag is \<open>deep_learning\<close> as soon as one collected sample has that tag, and
  \<open>feature_based\<close> otherwise, whatever the majority is; its encoding is the mean of the
  samples with that tag and its sample count is the number of all samples. With no
  collected sample, and after a timeout, enrollment returns \<open>False\<close>; every run that does
  not return \<open>True\<close> leaves the whole state unchanged, so no identity is created.
\<close>

theorem register_user_method_tag:
  "(camera_available S \<and> collect_samples E n polls [] 0 = Some (Collected smp) \<longrightarrow>
      (smp = [] \<longrightarrow> register_user E io S user n polls = Some (Returned False, S)) \<and>
      (\<forall>S'. register_user E io S user n polls = Some (Returned True, S') \<longrightarrow>
         (\<exists>fd. known_faces S' = (known_faces S)(user \<mapsto> fd) \<and> samples fd = length smp \<and>
            method_tag fd = (if \<exists>e. (e, ''deep_learning'') \<in> set smp then ''deep_learning''
                             else ''feature_based'') \<and>
            np_mean_axis0 (map fst (filter (\<lambda>(e, m). m = method_tag fd) smp))
              = Some (encoding fd)))) \<and>
   (camera_available S \<and> collect_samples E n polls [] 0 = Some TimedOut \<longrightarrow>
      register_user E io S user n polls = Some (Returned False, S)) \<and>
   (\<forall>r S'. register_user E io S user n polls = Some (r, S') \<and> r \<noteq> Returned True \<longrightarrow> S' = S)"
proof (intro conjI impI allI)
  assume h: "camera_available S \<and> collect_samples E n polls [] 0 = Some (Collected smp)"
  show "register_user E io S user n polls = Some (Returned False, S)" if "smp = []"
    using h that by (simp add: register_user_def commit_samples_def)
  show "\<exists>fd. known_faces S' = (known_faces S)(user \<mapsto> fd) \<and> samples fd = length smp \<and>
            method_tag fd = (if \<exists>e. (e, ''deep_learning'') \<in> set smp then ''deep_learning''
                             else ''feature_based'') \<and>
            np_mean_axis0 (map fst (filter (\<lambda>(e, m). m = method_tag fd) smp))
              = Some (encoding fd)"
    if "register_user E io S user n polls = Some (Returned True, S')" for S'
  proof -
    have "commit_samples io S user smp = (Returned True, S')"
      using h that by (simp add: register_user_def)
    then show ?thesis by (rule commit_samples_success)
  qed
next
  assume "camera_available S \<and> collect_samples E n polls [] 0 = Some TimedOut"
  then show "register_user E io S user n polls = Some (Returned False, S)"
    by (simp add: register_user_def)
next
  fix r S'
  assume "register_user E io S user n polls = Some (r, S') \<and> r \<noteq> Returned True"
  then show "S' = S"
    by (auto simp: register_user_def split: if_splits option.splits collected.splits
        dest: commit_samples_fail)
qed


lemma verify_user_failure_logged:
  assumes "known_faces S user \<noteq> None" "camera_available S"
    "\<not> fst (verify_user E io S user k camera)"
  shows "verification_logs (snd (verify_user E io S user k camera)) =
           verification_logs S @
           [\<lparr>timestamp = now_logged io, username = user, action = ''verification'',
             success = False, details = [(''attempts'', IntDetail (int k))]\<rparr>] \<and>
         known_faces (snd (verify_user E io S user k camera)) = known_faces S"
  using assms
  by (auto simp: verify_user_def logs_log_verification known_faces_log_verification
      split: option.splits)

lemma register_user_timeout:
  "camera_available S \<Longrightarrow> collect_samples E n polls [] 0 = Some TimedOut \<Longrightarrow>
   register_user E io S user n polls = Some (Returned False, S)"
  by (simp add: register_user_def)

lemma register_user_fail_unchanged:
  "register_user E io S user n polls = Some (r, S') \<Longrightarrow> r \<noteq> Returned True \<Longrightarrow> S' = S"
  by (auto simp: register_user_def split: if_splits option.splits collected.splits
      dest: commit_samples_fail)

text \<open>
  Claim C2, amended. An enrollment that times out returns \<open>False\<close> and leaves the state as
  it was: no event is appended and the identity store is unchanged; the same holds for
  every enrollment that does not return \<open>True\<close>. A verification of an enrolled identity
  that returns \<open>False\<close> with the camera available has appended one failure event carrying
  the number of attempts, and has not changed the identity store.
\<close>

theorem failure_logging:
  "(camera_available S \<and> collect_samples E n polls [] 0 = Some TimedOut \<longrightarrow>
      register_user E io S user n polls = Some (Returned False, S)) \<and>
   (\<forall>r S'. register_user E io S user n polls = Some (r, S') \<and> r \<noteq> Returned True \<longrightarrow> S' = S) \<and>
   (known_faces S user \<noteq> None \<and> camera_available S \<and>
    \<not> fst (verify_user E io S user k camera) \<longrightarrow>
      verification_logs (snd (verify_user E io S user k camera)) =
        verification_logs S @
        [\<lparr>timestamp = now_logged io, username = user, action = ''verification'',
          success = False, details = [(''attempts'', IntDetail (int k))]\<rparr>] \<and>
      known_faces (snd (verify_user E io S user k camera)) = known_faces S)"
  using register_user_timeout [of S E n polls io user]
    register_user_fail_unchanged [of E io S user n polls]
    verify_user_failure_logged [of S user E io k camera]
  by blast

lemma scene_candidate_fb:
  "candidate scene_cv (Scene bs Raises True) big_box = Some (scene_features, ''feature_based'')"
  by (simp add: big_box_def scene_candidate scene_extract)

lemma scene_candidate_dl:
  "candidate scene_cv (Scene bs (Returns [e]) ok) big_box = Some (e, ''deep_learning'')"
  by (simp add: big_box_def scene_candidate scene_extract)

lemma scene_poll_sample:
  "poll_sample scene_cv (Scene (b # bs) d ok) = candidate scene_cv (Scene (b # bs) d ok) b"
  by (simp add: poll_sample_candidate scene_detect)

lemma demo_collect:
  "collect_samples scene_cv 3 demo_polls [] 0 =
     Some (Collected [(scene_features, ''feature_based''), (scene_features, ''feature_based''),
                      ([1, 2], ''deep_learning'')])"
  by (simp add: demo_polls_def collect_samples.simps scene_poll_sample scene_candidate_fb
      scene_candidate_dl)

lemma timeout_collect:
  "collect_samples scene_cv 3 [\<lparr>elapsed_seconds = 31, captured = None\<rparr>] [] 0 = Some TimedOut"
  by (simp add: collect_samples.simps)

lemma np_mean_single: "np_mean_axis0 [v] = Some v"
  by (simp add: np_mean_axis0_def map_nth)

lemma demo_register:
  "\<exists>S'. register_user scene_cv demo_io (init_system (Finite 0.55) True None None) ''alice'' 3
           demo_polls = Some (Returned True, S')"
  by (simp add: register_user_def init_system_def demo_collect commit_samples_def
      np_mean_single store_user_def Let_def)

text \<open>
  Claim C1 as stated fails: two feature-based samples and one embedding commit an identity
  tagged \<open>deep_learning\<close>, while the majority method is \<open>feature_based\<close>.
\<close>

theorem majority_counterexample:
  "collect_samples scene_cv 3 demo_polls [] 0 =
     Some (Collected [(scene_features, ''feature_based''), (scene_features, ''feature_based''),
                      ([1, 2], ''deep_learning'')]) \<and>
   map_option (\<lambda>(r, S'). (r, map_option method_tag (known_faces S' ''alice'')))
     (register_user scene_cv demo_io (init_system (Finite 0.55) True None None) ''alice'' 3
        demo_polls)
     = Some (Returned True, Some ''deep_learning'') \<and>
   spec_majority_method
     [(scene_features, ''feature_based''), (scene_features, ''feature_based''),
      ([1, 2], ''deep_learning'')] = ''feature_based''"
  by (simp add: register_user_def init_system_def demo_collect commit_samples_def
      np_mean_single store_user_def Let_def log_verification_def save_data_def
      spec_majority_method_def)

theorem register_user_method_tag_witness:
  "camera_available (init_system (Finite 0.55) True None None) \<and>
   collect_samples scene_cv 3 demo_polls [] 0 =
     Some (Collected [(scene_features, ''feature_based''), (scene_features, ''feature_based''),
                      ([1, 2], ''deep_learning'')]) \<and>
   (\<exists>S'. register_user scene_cv demo_io (init_system (Finite 0.55) True None None) ''alice'' 3
           demo_polls = Some (Returned True, S') \<and>
         map_option method_tag (known_faces S' ''alice'') = Some ''deep_learning'' \<and>
         map_option encoding (known_faces S' ''alice'') = Some [1, 2] \<and>
         map_option samples (known_faces S' ''alice'') = Some 3) \<and>
   collect_samples scene_cv 3 [\<lparr>elapsed_seconds = 31, captured = None\<rparr>] [] 0 = Some TimedOut \<and>
   register_user scene_cv demo_io (init_system (Finite 0.55) True None None) ''alice'' 3
     [\<lparr>elapsed_seconds = 31, captured = None\<rparr>]
     = Some (Returned False, init_system (Finite 0.55) True None None)"
proof -
  let ?S = "init_system (Finite 0.55) True None None"
  let ?smp = "[(scene_features, ''feature_based''), (scene_features, ''feature_based''),
               ([1, 2 :: real], ''deep_learning'')]"
  have cam: "camera_available ?S" by (simp add: init_system_def)
  obtain S' where reg: "register_user scene_cv demo_io ?S ''alice'' 3 demo_polls
      = Some (Returned True, S')"
    using demo_register by blast
  note T = register_user_method_tag [where S = ?S and E = scene_cv and n = 3
      and polls = demo_polls and smp = ?smp and io = demo_io and user = "''alice''"]
  from T cam demo_collect reg obtain fd where
    fd: "known_faces S' = (known_faces ?S)(''alice'' \<mapsto> fd)" "samples fd = 3"
      "method_tag fd = ''deep_learning''"
      "np_mean_axis0 (map fst (filter (\<lambda>(e, m). m = method_tag fd) ?smp)) = Some (encoding fd)"
    by auto
  from fd(3,4) have "encoding fd = [1, 2]" by (simp add: np_mean_single)
  with fd reg have 1: "\<exists>S'. register_user scene_cv demo_io ?S ''alice'' 3 demo_polls
         = Some (Returned True, S') \<and>
       map_option method_tag (known_faces S' ''alice'') = Some ''deep_learning'' \<and>
       map_option encoding (known_faces S' ''alice'') = Some [1, 2] \<and>
       map_option samples (known_faces S' ''alice'') = Some 3"
    by auto
  have 2: "register_user scene_cv demo_io ?S ''alice'' 3
     [\<lparr>elapsed_seconds = 31, captured = None\<rparr>] = Some (Returned False, ?S)"
    using register_user_method_tag [where S = ?S and E = scene_cv and n = 3
      and polls = "[\<lparr>elapsed_seconds = 31, captured = None\<rparr>]" and io = demo_io
      and user = "''alice''" and smp = "[]"] cam timeout_collect
    by simp
  show ?thesis using cam demo_collect 1 2 timeout_collect by blast
qed

text \<open>
  Claim C2 as stated fails: an enrollment that times out returns \<open>False\<close> with the log
  still empty.
\<close>

theorem timeout_not_logged_counterexample:
  "collect_samples scene_cv 3 [\<lparr>elapsed_seconds = 31, captured = None\<rparr>] [] 0 = Some TimedOut \<and>
   map_option (\<lambda>(r, S'). (r, verification_logs S'))
     (register_user scene_cv demo_io (init_system (Finite 0.55) True None None) ''alice'' 3
        [\<lparr>elapsed_seconds = 31, captured = None\<rparr>])
     = Some (Returned False, [])"
  by (simp add: timeout_collect register_user_def init_system_def)

theorem failure_logging_witness:
  "camera_available (init_system (Finite 0.55) True None None) \<and>
   collect_samples scene_cv 3 [\<lparr>elapsed_seconds = 31, captured = None\<rparr>] [] 0 = Some TimedOut \<and>
   register_user scene_cv demo_io (init_system (Finite 0.55) True None None) ''alice'' 3
     [\<lparr>elapsed_seconds = 31, captured = None\<rparr>]
     = Some (Returned False, init_system (Finite 0.55) True None None) \<and>
   known_faces demo_system ''alice'' \<noteq> None \<and> camera_available demo_system \<and>
   \<not> fst (verify_user scene_cv demo_io demo_system ''alice'' 1 demo_camera) \<and>
   verification_logs (snd (verify_user scene_cv demo_io demo_system ''alice'' 1 demo_camera)) =
     [\<lparr>timestamp = ''t1'', username = ''alice'', action = ''verification'', success = False,
       details = [(''attempts'', IntDetail 1)]\<rparr>] \<and>
   known_faces (snd (verify_user scene_cv demo_io demo_system ''alice'' 1 demo_camera))
     = known_faces demo_system"
proof -
  let ?S = "init_system (Finite 0.55) True None None"
  have cam: "camera_available ?S" by (simp add: init_system_def)
  have k: "known_faces demo_system ''alice'' \<noteq> None" and c: "camera_available demo_system"
    and l: "verification_logs demo_system = []"
    by (simp_all add: demo_system_def init_system_def)
  have rej: "\<not> fst (verify_user scene_cv demo_io demo_system ''alice'' 1 demo_camera)"
    by (simp add: verify_user_def demo_system_def init_system_def demo_camera_def
        demo_distance)
  note T = failure_logging [where S = ?S and E = scene_cv and n = 3
      and polls = "[\<lparr>elapsed_seconds = 31, captured = None\<rparr>]" and io = demo_io
      and user = "''alice''"]
  note V = failure_logging [where S = demo_system and E = scene_cv and k = 1
      and camera = demo_camera and io = demo_io and user = "''alice''",
      THEN conjunct2, THEN conjunct2]
  have 1: "register_user scene_cv demo_io ?S ''alice'' 3
     [\<lparr>elapsed_seconds = 31, captured = None\<rparr>] = Some (Returned False, ?S)"
    using T cam timeout_collect by blast
  have 2: "verification_logs (snd (verify_user scene_cv demo_io demo_system ''alice'' 1 demo_camera)) =
     [\<lparr>timestamp = ''t1'', username = ''alice'', action = ''verification'', success = False,
       details = [(''attempts'', IntDetail 1)]\<rparr>] \<and>
   known_faces (snd (verify_user scene_cv demo_io demo_system ''alice'' 1 demo_camera))
     = known_faces demo_system"
    using V k c rej by (simp add: l demo_io_def)
  show ?thesis using cam timeout_collect 1 k c rej 2 by blast
qed

text \<open>
  Claim C6 as stated fails at the boundary: a first detection of exactly 100 by 100, with
  a crop the extractor can encode, is not sampled.
\<close>

theorem size_gate_counterexample:
  "detect_faces scene_cv (Scene [(0, 0, 100, 100)] (Returns [[1, 2]]) True)
     = [(0, 0, 100, 100)] \<and>
   img_size scene_cv
     (crop scene_cv (Scene [(0, 0, 100, 100)] (Returns [[1, 2]]) True) 0 0 100 100) = 1 \<and>
   extract_face_encoding scene_cv
     (Some (crop scene_cv (Scene [(0, 0, 100, 100)] (Returns [[1, 2]]) True) 0 0 100 100))
     = (Some [1, 2], ''deep_learning'') \<and>
   poll_sample scene_cv (Scene [(0, 0, 100, 100)] (Returns [[1, 2]]) True) = None \<and>
   collect_samples scene_cv 1
     [\<lparr>elapsed_seconds = 0, captured = Some (Scene [(0, 0, 100, 100)] (Returns [[1, 2]]) True)\<rparr>,
      \<lparr>elapsed_seconds = 31, captured = None\<rparr>] [] 0 = Some TimedOut"
proof -
  have c: "crop scene_cv (Scene [(0, 0, 100, 100)] (Returns [[1, 2]]) True) 0 0 100 100
      = Scene [(0, 0, 100, 100)] (Returns [[1, 2]]) True"
    and i: "img_size scene_cv (Scene [(0, 0, 100, 100)] (Returns [[1, 2]]) True) = 1"
    by (simp_all add: scene_cv_def)
  show ?thesis
    by (simp add: c i scene_detect scene_extract scene_poll_sample scene_candidate
        collect_samples.simps)
qed

theorem enrollment_size_gate_witness:
  "candidate scene_cv (Scene [(0, 0, 100, 300)] (Returns [[1, 2]]) True) (0, 0, 100, 300) = None \<and>
   poll_sample scene_cv (Scene [(0, 0, 100, 300)] (Returns [[1, 2]]) True) = None \<and>
   poll_sample scene_cv (Scene [(0, 0, 101, 101)] (Returns [[1, 2]]) True)
     = Some ([1, 2], ''deep_learning'') \<and>
   collect_samples scene_cv 1
     [\<lparr>elapsed_seconds = 0, captured = Some (Scene [(0, 0, 100, 300)] (Returns [[1, 2]]) True)\<rparr>,
      \<lparr>elapsed_seconds = 1, captured = Some (Scene [(0, 0, 101, 101)] (Returns [[1, 2]]) True)\<rparr>]
     [] 0 = Some (Collected [([1, 2], ''deep_learning'')]) \<and>
   from_first_box scene_cv
     [\<lparr>elapsed_seconds = 0, captured = Some (Scene [(0, 0, 100, 300)] (Returns [[1, 2]]) True)\<rparr>,
      \<lparr>elapsed_seconds = 1, captured = Some (Scene [(0, 0, 101, 101)] (Returns [[1, 2]]) True)\<rparr>]
     ([1, 2], ''deep_learning'')"
proof -
  let ?small = "Scene [(0, 0, 100, 300)] (Returns [[1, 2]]) True"
  let ?big = "Scene [(0, 0, 101, 101)] (Returns [[1, 2]]) True"
  let ?p0 = "\<lparr>elapsed_seconds = 0, captured = Some ?small\<rparr>"
  let ?p1 = "\<lparr>elapsed_seconds = 1, captured = Some ?big\<rparr>"
  note T0 = enrollment_size_gate [where E = scene_cv and frame = ?small and x = 0 and y = 0
      and w = 100 and h = 300 and n = 1 and sample_count = 0 and p = ?p0 and rest = "[?p1]"
      and smp = "[]" and polls = "[?p0, ?p1]" and got = "[([1, 2], ''deep_learning'')]"]
  note T1 = enrollment_size_gate [where E = scene_cv and frame = ?big and x = 0 and y = 0
      and w = 101 and h = 101 and n = 1 and sample_count = 0 and p = ?p1 and rest = "[]"
      and smp = "[]" and s = "([1, 2], ''deep_learning'')"]
  have c0: "candidate scene_cv ?small (0, 0, 100, 300) = None"
    using T0 by simp
  have s0: "poll_sample scene_cv ?small = None"
    using T0 [THEN conjunct1] c0 by (simp add: scene_detect)
  have i: "img_size scene_cv (crop scene_cv ?big 0 0 101 101) > 0"
    and cr: "crop scene_cv ?big 0 0 101 101 = ?big"
    by (simp_all add: scene_cv_def)
  have c1: "candidate scene_cv ?big (0, 0, 101, 101) = Some ([1, 2], ''deep_learning'')"
    using T1 [THEN conjunct2, THEN conjunct2, THEN conjunct1] i
    by (simp add: cr scene_extract)
  have s1: "poll_sample scene_cv ?big = Some ([1, 2], ''deep_learning'')"
    using T1 [THEN conjunct1] c1 by (simp add: scene_detect)
  have "collect_samples scene_cv 1 [?p0, ?p1] [] 0 = collect_samples scene_cv 1 [?p1] [] 0"
    using T0 [THEN conjunct2, THEN conjunct2, THEN conjunct2, THEN conjunct1] s0 by simp
  also have "\<dots> = collect_samples scene_cv 1 [] [([1, 2], ''deep_learning'')] 1"
    using T1 [THEN conjunct2, THEN conjunct2, THEN conjunct2, THEN conjunct2, THEN conjunct1] s1
    by simp
  also have "\<dots> = Some (Collected [([1, 2], ''deep_learning'')])"
    by (simp add: collect_samples_done)
  finally have col: "collect_samples scene_cv 1 [?p0, ?p1] [] 0
      = Some (Collected [([1, 2], ''deep_learning'')])" .
  have "from_first_box scene_cv [?p0, ?p1] ([1, 2], ''deep_learning'')"
    using T0 [THEN conjunct2, THEN conjunct2, THEN conjunct2, THEN conjunct2, THEN conjunct2] col
    by simp
  then show ?thesis using c0 s0 s1 col by blast
qed

section \<open>Properties of the feature extractor\<close>

lemma length_np_histogram: "length (np_histogram vals bins) = bins"
  by (simp add: np_histogram_def)

lemma length_extract_lbp_features: "length (extract_lbp_features gray radius points) = 256"
  by (simp add: extract_lbp_features_def Let_def length_np_histogram)

lemma extract_lbp_features_degenerate:
  "height gray < 2 * radius \<or> width gray < 2 * radius \<Longrightarrow>
   extract_lbp_features gray radius points = replicate 256 0"
  by (auto simp: extract_lbp_features_def)

lemma length_edge_features: "length (edge_features edges) = 20"
  by (simp add: edge_features_def Let_def length_np_histogram)

lemma color_features_None_iff:
  "color_features E r cs = None \<longleftrightarrow>
     (\<exists>c\<in>set cs. calcHist E r c = Raises \<or>
        (\<exists>h. calcHist E r c = Returns (Some h) \<and> normalize E h = Raises))"
  by (induction cs) (auto split: attempt.splits option.splits)

lemma fallback_features_None_iff:
  "fallback_features E img = None \<longleftrightarrow>
     resize E img = Raises \<or>
     (\<exists>r. resize E img = Returns r \<and>
        (color_features E r [0, 1, 2] = None \<or> cvtColor_gray E r = Raises \<or>
         (\<exists>g. cvtColor_gray E r = Returns g \<and> Canny E g = Raises)))"
  by (auto simp: fallback_features_def split: attempt.splits option.splits)

lemma fallback_features_Some:
  "resize E img = Returns r \<Longrightarrow> color_features E r [0, 1, 2] = Some cs \<Longrightarrow>
   cvtColor_gray E r = Returns g \<Longrightarrow> Canny E g = Returns ed \<Longrightarrow>
   fallback_features E img = Some (cs @ extract_lbp_features g 2 16 @ edge_features ed)"
  by (simp add: fallback_features_def)

lemma extract_fallback:
  "img_size E img \<noteq> 0 \<Longrightarrow> (\<forall>e es. face_encodings E img \<noteq> Returns (e # es)) \<Longrightarrow>
   extract_face_encoding E (Some img) =
     (case fallback_features E img of
        Some f \<Rightarrow> (Some f, ''feature_based'')
      | None \<Rightarrow> (None, ''error''))"
  by (auto simp: extract_face_encoding_def split: attempt.splits list.splits option.splits)

text \<open>
  Claim C3, amended. The texture segment always has length 256 and is all zeros when the
  gray image is too small for the radius, so a failure inside the texture descriptor does
  not abort the extraction: when resizing, the colour histograms, the gray conversion and
  the edge detector succeed, the fallback path returns colour, texture and edge segments
  concatenated. It returns nothing exactly when resizing raises, a colour histogram or its
  normalisation raises, the gray conversion raises or the edge detector raises. When the
  crop is valid and the embedding path yields no encoding, the extractor returns the
  fallback encoding tagged \<open>feature_based\<close>, or no encoding tagged \<open>error\<close>.
\<close>

theorem fallback_degradation:
  "length (extract_lbp_features gray radius points) = 256 \<and>
   (height gray < 2 * radius \<or> width gray < 2 * radius \<longrightarrow>
      extract_lbp_features gray radius points = replicate 256 0) \<and>
   (resize E img = Returns r \<and> color_features E r [0, 1, 2] = Some cs \<and>
    cvtColor_gray E r = Returns g \<and> Canny E g = Returns ed \<longrightarrow>
      fallback_features E img = Some (cs @ extract_lbp_features g 2 16 @ edge_features ed)) \<and>
   (fallback_features E img = None \<longleftrightarrow>
      resize E img = Raises \<or>
      (\<exists>r. resize E img = Returns r \<and>
         (color_features E r [0, 1, 2] = None \<or> cvtColor_gray E r = Raises \<or>
          (\<exists>g. cvtColor_gray E r = Returns g \<and> Canny E g = Raises)))) \<and>
   (color_features E r [0, 1, 2] = None \<longleftrightarrow>
      (\<exists>c\<in>{0, 1, 2}. calcHist E r c = Raises \<or>
         (\<exists>h. calcHist E r c = Returns (Some h) \<and> normalize E h = Raises))) \<and>
   (img_size E img \<noteq> 0 \<and> (\<forall>e es. face_encodings E img \<noteq> Returns (e # es)) \<longrightarrow>
      extract_face_encoding E (Some img) =
        (case fallback_features E img of
           Some f \<Rightarrow> (Some f, ''feature_based'')
         | None \<Rightarrow> (None, ''error'')))"
proof (intro conjI impI)
  show "length (extract_lbp_features gray radius points) = 256"
    by (rule length_extract_lbp_features)
  show "extract_lbp_features gray radius points = replicate 256 0"
    if "height gray < 2 * radius \<or> width gray < 2 * radius"
    using that by (rule extract_lbp_features_degenerate)
  show "fallback_features E img = Some (cs @ extract_lbp_features g 2 16 @ edge_features ed)"
    if "resize E img = Returns r \<and> color_features E r [0, 1, 2] = Some cs \<and>
        cvtColor_gray E r = Returns g \<and> Canny E g = Returns ed"
    using that by (intro fallback_features_Some) auto
  show "fallback_features E img = None \<longleftrightarrow>
      resize E img = Raises \<or>
      (\<exists>r. resize E img = Returns r \<and>
         (color_features E r [0, 1, 2] = None \<or> cvtColor_gray E r = Raises \<or>
          (\<exists>g. cvtColor_gray E r = Returns g \<and> Canny E g = Raises)))"
    by (rule fallback_features_None_iff)
  show "color_features E r [0, 1, 2] = None \<longleftrightarrow>
      (\<exists>c\<in>{0, 1, 2}. calcHist E r c = Raises \<or>
         (\<exists>h. calcHist E r c = Returns (Some h) \<and> normalize E h = Raises))"
    using color_features_None_iff [of E r "[0, 1, 2]"] by simp
  show "extract_face_encoding E (Some img) =
        (case fallback_features E img of
           Some f \<Rightarrow> (Some f, ''feature_based'')
         | None \<Rightarrow> (None, ''error''))"
    if "img_size E img \<noteq> 0 \<and> (\<forall>e es. face_encodings E img \<noteq> Returns (e # es))"
    using that by (intro extract_fallback) auto
qed

text \<open>
  Claim C3 as stated fails: when \<open>cv2.calcHist\<close> raises on the first channel, or when
  \<open>cv2.Canny\<close> raises, the extractor returns no encoding instead of an encoding with a
  zero-filled segment.
\<close>

theorem sub_histogram_counterexample:
  "face_encodings scene_cv (Scene [] Raises False) = Raises \<and>
   resize scene_cv (Scene [] Raises False) = Returns (Scene [] Raises False) \<and>
   calcHist scene_cv (Scene [] Raises False) 0 = Raises \<and>
   extract_face_encoding scene_cv (Some (Scene [] Raises False)) = (None, ''error'') \<and>
   color_features (scene_cv\<lparr>Canny := \<lambda>g. Raises\<rparr>) (Scene [] Raises True) [0, 1, 2]
     = Some [1, 1, 1] \<and>
   Canny (scene_cv\<lparr>Canny := \<lambda>g. Raises\<rparr>) \<lparr>height = 0, width = 0, pixels = []\<rparr> = Raises \<and>
   extract_face_encoding (scene_cv\<lparr>Canny := \<lambda>g. Raises\<rparr>) (Some (Scene [] Raises True))
     = (None, ''error'')"
  by (simp add: scene_extract)
     (simp add: scene_cv_def extract_face_encoding_def fallback_features_def)

theorem fallback_degradation_witness:
  "height \<lparr>height = 0, width = 0, pixels = []\<rparr> < 2 * 2 \<and>
   extract_lbp_features \<lparr>height = 0, width = 0, pixels = []\<rparr> 2 16 = replicate 256 0 \<and>
   img_size scene_cv (Scene [] Raises True) \<noteq> 0 \<and>
   fallback_features scene_cv (Scene [] Raises True) = Some scene_features \<and>
   extract_face_encoding scene_cv (Some (Scene [] Raises True))
     = (Some scene_features, ''feature_based'') \<and>
   length scene_features = 3 + 256 + 20 \<and>
   calcHist scene_cv (Scene [] Raises False) 0 = Raises \<and>
   fallback_features scene_cv (Scene [] Raises False) = None \<and>
   extract_face_encoding scene_cv (Some (Scene [] Raises False)) = (None, ''error'')"
proof -
  let ?g = "\<lparr>height = 0, width = 0, pixels = []\<rparr>"
  let ?ok = "Scene [] Raises True" and ?bad = "Scene [] Raises False"
  note T = fallback_degradation [where gray = ?g and radius = 2 and points = 16
      and E = scene_cv and img = ?ok and r = ?ok and cs = "[1, 1, 1]" and g = ?g and ed = ?g]
  note B = fallback_degradation [where gray = ?g and radius = 2 and points = 16
      and E = scene_cv and img = ?bad and r = ?bad and cs = "[1, 1, 1]" and g = ?g and ed = ?g]
  have env: "resize scene_cv ?ok = Returns ?ok" "cvtColor_gray scene_cv ?ok = Returns ?g"
    "Canny scene_cv ?g = Returns ?g" "img_size scene_cv ?ok \<noteq> 0"
    "face_encodings scene_cv ?ok = Raises" "calcHist scene_cv ?bad 0 = Raises"
    "resize scene_cv ?bad = Returns ?bad" "img_size scene_cv ?bad \<noteq> 0"
    "face_encodings scene_cv ?bad = Raises"
    "color_features scene_cv ?ok [0, 1, 2] = Some [1, 1, 1]"
    by (simp_all add: scene_cv_def)
  have z: "extract_lbp_features ?g 2 16 = replicate 256 0"
    using T [THEN conjunct2, THEN conjunct1] by simp
  have e: "edge_features ?g = replicate 20 0"
    by (simp add: edge_features_def np_histogram_Nil Let_def)
  have f: "fallback_features scene_cv ?ok = Some scene_features"
    using T [THEN conjunct2, THEN conjunct2, THEN conjunct1] env
    by (simp add: z e scene_features_def)
  have x: "extract_face_encoding scene_cv (Some ?ok) = (Some scene_features, ''feature_based'')"
    using T [THEN conjunct2, THEN conjunct2, THEN conjunct2, THEN conjunct2, THEN conjunct2] env
    by (simp add: f)
  have c: "color_features scene_cv ?bad [0, 1, 2] = None"
    using B [THEN conjunct2, THEN conjunct2, THEN conjunct2, THEN conjunct2, THEN conjunct1] env
    by simp
  have fb: "fallback_features scene_cv ?bad = None"
    using B [THEN conjunct2, THEN conjunct2, THEN conjunct2, THEN conjunct1] env c
    by simp
  have xb: "extract_face_encoding scene_cv (Some ?bad) = (None, ''error'')"
    using B [THEN conjunct2, THEN conjunct2, THEN conjunct2, THEN conjunct2, THEN conjunct2] env
    by (simp add: fb)
  have l: "length scene_features = 3 + 256 + 20" by (simp add: scene_features_def)
  show ?thesis using z env f x l fb xb by simp
qed

end
